theory Spec2Isabelle
  imports Main
begin

section \<open>The agent handshake of instana/fsm.py\<close>

text \<open>
  The module drives a four-state machine (fysom states \<open>none\<close>, \<open>found\<close>, \<open>announced\<close>,
  \<open>good2go\<close>; the specification calls them Unresolved, Found, Announced, Ready) through
  the events \<open>lookup\<close>, \<open>announce\<close> and \<open>ready\<close>. Everything the module reads from
  outside (environment variables, sensor options, the files under /proc, the agent's
  answers) is collected in a record \<open>world\<close>; everything it changes (the fysom state,
  the agent object, the latch, the running timers, the log) is a record \<open>fsm_state\<close>.
  Exceptions are values of \<open>error\<close>.
\<close>

subsection \<open>Constants imported from agent_const\<close>

text \<open>
  \<open>agent_const.py\<close> is not part of the sources at hand, so its constants are
  parameters of the development.
\<close>

record agent_const =
  AGENT_HEADER :: string
  AGENT_DEFAULT_HOST :: string
  AGENT_DEFAULT_PORT :: int

datatype error = ValueError | IndexError | OSError | FysomError

subsection \<open>What a step reads from outside\<close>

datatype 'a fileread = Absent | Unreadable | Content 'a

text \<open>
  A string is the list of its characters. The model never looks inside a character,
  except to compare it with NUL when it splits the command line.

  What the interpreter and its library compute from a string is given with the world,
  as the result of the call, and not computed in the model: the builtin \<open>int\<close>,
  \<open>re.search\<close> and \<open>bytes.decode\<close> belong to the interpreter the module runs on, and
  what they accept (signs, white space and underscores, the digits of other scripts, a
  limit on the number of digits) varies with its release.

  \<^item> \<open>environ\<close> is \<open>os.environ\<close>; \<open>int_port\<close> is the value of
    \<open>int(os.environ["INSTANA_AGENT_PORT"])\<close>, \<open>None\<close> when \<open>int\<close> raises ValueError. It
    is read only when the variable is set.
  \<^item> \<open>opt_agent_host\<close> and \<open>opt_agent_port\<close> are
    \<open>agent.sensor.options.agent_host\<close> and \<open>agent_port\<close>.
  \<^item> \<open>request_header h\<close> is the \<open>Server\<close> header that
    \<open>agent.request_header(agent.make_host_url(h, "/"), "GET", "Server")\<close> returns,
    \<open>None\<close> when there is none. \<open>check_host\<close> passes only the host to
    \<open>make_host_url\<close>; the port goes to the log message.
  \<^item> \<open>proc_exists\<close> is \<open>os.path.exists("/proc/")\<close>.
  \<^item> \<open>ip_route\<close> is the decoded output of the routing-table command, \<open>None\<close> when
    running or decoding it raised.
  \<^item> \<open>cmdline_file\<close> is /proc/self/cmdline: \<open>Absent\<close> when \<open>os.path.isfile\<close> is
    false, \<open>Unreadable\<close> when opening or reading it raised, else its content.
  \<^item> \<open>ps_command\<close> is the outcome of lines 143 to 147: the second line of the output
    of \<open>ps -p <pid> -o command\<close>, decoded as UTF-8; \<open>None\<close> when one of these lines
    raised (\<open>ps\<close> cannot be run, its output has no second line, or that line is not
    UTF-8). \<open>argv\<close> is \<open>sys.argv\<close>.
  \<^item> \<open>sched_pid\<close> is the outcome of lines 205 to 211 for /proc/<pid>/sched: \<open>Absent\<close>
    when \<open>os.path.isfile\<close> is false; \<open>Unreadable\<close> when one of the lines of the \<open>try\<close>
    raised (the file cannot be opened or read, or \<open>re.search\<close> finds no match in its
    first line); else the \<open>int\<close> of the digits that \<open>re.search\<close> matched.
  \<^item> \<open>sock\<close> is the file number of the socket connected to port 42699 of the agent
    host and the target of its /proc/<pid>/fd link, \<open>None\<close> when \<open>connect\<close> or
    \<open>readlink\<close> raised.
  \<^item> \<open>response\<close> is the body \<open>agent.request_response\<close> returns for the PUT of the
    discovery record.
\<close>

record world =
  environ :: "string \<rightharpoonup> string"
  int_port :: "int option"
  opt_agent_host :: string
  opt_agent_port :: int
  request_header :: "string \<Rightarrow> string option"
  proc_exists :: bool
  ip_route :: "string option"
  getpid :: int
  cmdline_file :: "string fileread"
  ps_command :: "string option"
  argv :: "string list"
  sched_pid :: "int fileread"
  sock :: "(int \<times> string) option"
  response :: "string option"

subsection \<open>Endpoint resolution: \<open>Fsm.__get_agent_host_port\<close>\<close>

definition get_agent_host_port :: "agent_const \<Rightarrow> world \<Rightarrow> error + (string \<times> int)" where
  "get_agent_host_port c w =
     (case environ w ''INSTANA_AGENT_HOST'' of
        Some h \<Rightarrow>
          (case environ w ''INSTANA_AGENT_PORT'' of
             Some p \<Rightarrow> (case int_port w of None \<Rightarrow> Inl ValueError | Some n \<Rightarrow> Inr (h, n))
           | None \<Rightarrow> Inr (h, AGENT_DEFAULT_PORT c))
      | None \<Rightarrow>
          (case environ w ''INSTANA_AGENT_IP'' of
             Some h \<Rightarrow>
               (case environ w ''INSTANA_AGENT_PORT'' of
                  Some p \<Rightarrow> (case int_port w of None \<Rightarrow> Inl ValueError | Some n \<Rightarrow> Inr (h, n))
                | None \<Rightarrow> Inr (h, AGENT_DEFAULT_PORT c))
           | None \<Rightarrow>
               if opt_agent_host w \<noteq> []
               then Inr (opt_agent_host w,
                         if opt_agent_port w \<noteq> 0 then opt_agent_port w else AGENT_DEFAULT_PORT c)
               else Inr (AGENT_DEFAULT_HOST c, AGENT_DEFAULT_PORT c)))"

subsection \<open>The discovery record: class \<open>Discovery\<close>\<close>

datatype pyval = PNone | PInt int | PStr string | PList "string list"

text \<open>
  An instance of \<open>Discovery\<close> is its \<open>__dict__\<close>, which \<open>__init__\<close> fills from the
  keyword arguments. Reading an attribute looks in the instance first and in the class
  attributes next (\<open>None\<close> stands for AttributeError).
\<close>

type_synonym discovery = "string \<rightharpoonup> pyval"

definition Discovery_class :: "string \<rightharpoonup> pyval" where
  "Discovery_class =
     [''pid'' \<mapsto> PInt 0, ''name'' \<mapsto> PNone, ''args'' \<mapsto> PNone,
      ''fd'' \<mapsto> PInt (- 1), ''inode'' \<mapsto> PStr []]"

definition Discovery :: "(string \<times> pyval) list \<Rightarrow> discovery" where
  "Discovery kwds = Map.empty ++ map_of (rev kwds)"

definition getattr :: "discovery \<Rightarrow> string \<Rightarrow> pyval option" where
  "getattr d a = (case d a of Some v \<Rightarrow> Some v | None \<Rightarrow> Discovery_class a)"

definition setattr :: "discovery \<Rightarrow> string \<Rightarrow> pyval \<Rightarrow> discovery" where
  "setattr d a v = d(a \<mapsto> v)"

definition to_dict :: "discovery \<Rightarrow> (string \<times> pyval) list option" where
  "to_dict d =
     (case (getattr d ''pid'', getattr d ''name'', getattr d ''args'',
            getattr d ''fd'', getattr d ''inode'') of
        (Some p, Some n, Some a, Some f, Some i) \<Rightarrow>
          Some [(''pid'', p), (''name'', n), (''args'', a), (''fd'', f), (''inode'', i)]
      | _ \<Rightarrow> None)"

subsection \<open>The state of the machine and of its surroundings\<close>

datatype fstate = St_none | St_found | St_announced | St_good2go

datatype event = Ev_lookup | Ev_announce | Ev_ready

text \<open>What a timer calls when it fires: \<open>fsm.lookup\<close> for the start-up timer, the
  step itself for a retry.\<close>

datatype target = Call_fsm_lookup | Call_lookup_agent_host | Call_announce_sensor

record timer =
  interval :: nat
  daemon :: bool
  label :: string
  callee :: target

datatype level = Debug | Info | Warning | Error

text \<open>
  Log messages, by the line of their format string and its arguments: \<open>Msg_stan\<close> 47,
  \<open>Msg_initializing\<close> 49, \<open>Msg_statechange\<close> 69 (the pid, the event, its source and
  destination; the name of the thread is left out), \<open>Msg_not_found\<close> 98,
  \<open>Msg_checking_gateway\<close> 105, \<open>Msg_exception\<close> 115, \<open>Msg_checking\<close> 120,
  \<open>Msg_announcing\<close> 128, \<open>Msg_announce_sensor_exc\<close> 150, \<open>Msg_in_business\<close> 169,
  \<open>Msg_cannot_announce\<close> 173, \<open>Msg_scheduling\<close> 178, \<open>Msg_sched_failed\<close> 213.
\<close>

datatype logmsg =
    Msg_stan
  | Msg_initializing
  | Msg_statechange int event fstate fstate
  | Msg_not_found
  | Msg_checking_gateway
  | Msg_exception
  | Msg_checking string int
  | Msg_announcing
  | Msg_announce_sensor_exc
  | Msg_in_business int
  | Msg_cannot_announce
  | Msg_scheduling string
  | Msg_sched_failed

text \<open>
  \<open>current\<close> is fysom's state; \<open>agent_host\<close>, \<open>agent_port\<close> and \<open>agent_from\<close> are
  what the machine has written to the agent object (\<open>None\<close>: nothing yet);
  \<open>timers\<close> are the timers started and not yet fired, \<open>timer\<close> is the attribute
  \<open>self.timer\<close>; \<open>meter_runs\<close> counts the calls of \<open>agent.sensor.meter.run\<close>;
  \<open>requests\<close> are the discovery records handed to \<open>agent.request_response\<close>.
\<close>

record fsm_state =
  current :: fstate
  agent_host :: "string option"
  agent_port :: "int option"
  agent_from :: "string option"
  warnedPeriodic :: bool
  timer :: "timer option"
  timers :: "timer list"
  logged :: "(level \<times> logmsg) list"
  meter_runs :: nat
  requests :: "discovery list"

definition logger :: "level \<Rightarrow> logmsg \<Rightarrow> fsm_state \<Rightarrow> fsm_state" where
  "logger l m s = s\<lparr>logged := logged s @ [(l, m)]\<rparr>"

definition RETRY_PERIOD :: nat where
  "RETRY_PERIOD = 30"

definition schedule_retry :: "target \<Rightarrow> string \<Rightarrow> fsm_state \<Rightarrow> fsm_state" where
  "schedule_retry f n s =
     (let s1 = logger Debug (Msg_scheduling n) s;
          t = \<lparr>interval = RETRY_PERIOD, daemon = True, label = n, callee = f\<rparr>
      in s1\<lparr>timer := Some t, timers := timers s1 @ [t]\<rparr>)"

definition printstatechange :: "world \<Rightarrow> event \<Rightarrow> fstate \<Rightarrow> fstate \<Rightarrow> fsm_state \<Rightarrow> fsm_state" where
  "printstatechange w ev src dst s = logger Debug (Msg_statechange (getpid w) ev src dst) s"

text \<open>\<open>start_metric_reporting\<close> returns nothing, which Python reads as false.\<close>

definition start_metric_reporting :: "fsm_state \<Rightarrow> (error + bool) \<times> fsm_state" where
  "start_metric_reporting s = (Inr False, s\<lparr>meter_runs := Suc (meter_runs s)\<rparr>)"

subsection \<open>The fysom machine\<close>

text \<open>
  The event table of \<open>Fsm.__init__\<close>: \<open>lookup\<close> leads from any state to \<open>found\<close>,
  \<open>announce\<close> from \<open>found\<close> to \<open>announced\<close>, \<open>ready\<close> from \<open>announced\<close> to \<open>good2go\<close>.
  No initial state is configured, so the machine starts in fysom's state \<open>none\<close>.
\<close>

definition event_map :: "event \<Rightarrow> fstate \<Rightarrow> fstate option" where
  "event_map ev src =
     (case ev of
        Ev_lookup \<Rightarrow> Some St_found
      | Ev_announce \<Rightarrow> (if src = St_found then Some St_announced else None)
      | Ev_ready \<Rightarrow> (if src = St_announced then Some St_good2go else None))"

text \<open>
  Calling an event method of the fysom library, which the module imports (its
  release 2): an event that the table does not allow in the current state raises
  FysomError and changes nothing. Otherwise, when the destination differs from the
  current state, the state is set to the destination first, then \<open>onchangestate\<close> runs
  (here \<open>printstatechange\<close>), then the callback registered as \<open>on<event>\<close>, which fysom
  treats as \<open>onafter<event>\<close>; when the destination is the current state, only the
  latter runs. The value the callback returns is dropped; an exception it raises passes
  through the event method, with the state already changed.

  The module is written for this order. \<open>lookup_agent_host\<close>, the callback of \<open>lookup\<close>,
  fires \<open>announce\<close>, which the table allows in \<open>found\<close> only; \<open>announce_sensor\<close>, the
  callback of \<open>announce\<close>, fires \<open>ready\<close>, which the table allows in \<open>announced\<close> only.
  Were the state set after the callback, both would raise.
\<close>

definition fysom_event ::
  "event \<Rightarrow> (fsm_state \<Rightarrow> (error + bool) \<times> fsm_state) \<Rightarrow> world \<Rightarrow> fsm_state
     \<Rightarrow> (error + unit) \<times> fsm_state" where
  "fysom_event ev after_event w s =
     (case event_map ev (current s) of
        None \<Rightarrow> (Inl FysomError, s)
      | Some dst \<Rightarrow>
          (let src = current s;
               s1 = (if src = dst then s
                     else printstatechange w ev src dst (s\<lparr>current := dst\<rparr>))
           in case after_event s1 of
                (Inl e, s2) \<Rightarrow> (Inl e, s2)
              | (Inr r, s2) \<Rightarrow> (Inr (), s2)))"

definition ready :: "world \<Rightarrow> fsm_state \<Rightarrow> (error + unit) \<times> fsm_state" where
  "ready w s = fysom_event Ev_ready start_metric_reporting w s"

subsection \<open>Process identity: \<open>Fsm.__get_real_pid\<close> and the command line\<close>

text \<open>
  \<open>__get_real_pid\<close>: the pid read from the scheduler file, or \<open>os.getpid()\<close>. The
  second component tells whether the handler of the \<open>try\<close> ran and logged.
\<close>

definition get_real_pid :: "world \<Rightarrow> int \<times> bool" where
  "get_real_pid w =
     (if proc_exists w then
        (case sched_pid w of
           Absent \<Rightarrow> (getpid w, False)
         | Unreadable \<Rightarrow> (getpid w, True)
         | Content n \<Rightarrow> (n, False))
      else (getpid w, False))"

text \<open>\<open>s.split(sep)\<close> with a separator of one character.\<close>

fun split_on :: "char \<Rightarrow> string \<Rightarrow> string list" where
  "split_on sep [] = [[]]"
| "split_on sep (ch # cs) =
     (if ch = sep then [] # split_on sep cs
      else (case split_on sep cs of
              [] \<Rightarrow> [[ch]]
            | p # ps \<Rightarrow> (ch # p) # ps))"

text \<open>The command line of \<open>announce_sensor\<close>, and whether the handler of the \<open>try\<close> ran
  (it replaces the command line by \<open>sys.argv\<close> and logs).\<close>

definition get_cmdline :: "world \<Rightarrow> string list \<times> bool" where
  "get_cmdline w =
     (case cmdline_file w of
        Content cmdinfo \<Rightarrow> (split_on (CHR 0x00) cmdinfo, False)
      | Unreadable \<Rightarrow> (argv w, True)
      | Absent \<Rightarrow>
          (case ps_command w of
             None \<Rightarrow> (argv w, True)
           | Some ln \<Rightarrow> ([ln], False)))"

subsection \<open>The announce step: \<open>Fsm.announce_sensor\<close>\<close>

text \<open>
  The record that \<open>announce_sensor\<close> builds (lines 152 to 162): \<open>pid\<close> is the result of
  \<open>__get_real_pid\<close>, \<open>name\<close> and \<open>args\<close> are the head and the tail of the command line
  (IndexError when it is empty); \<open>fd\<close> and \<open>inode\<close> are set on the instance only when
  /proc exists.
\<close>

definition discovery_of :: "world \<Rightarrow> error + discovery" where
  "discovery_of w =
     (case fst (get_cmdline w) of
        [] \<Rightarrow> Inl IndexError
      | nm # args \<Rightarrow>
          (let d = Discovery [(''pid'', PInt (fst (get_real_pid w))),
                              (''name'', PStr nm), (''args'', PList args)]
           in if proc_exists w then
                (case sock w of
                   None \<Rightarrow> Inl OSError
                 | Some (fd, ino) \<Rightarrow> Inr (setattr (setattr d ''fd'' (PInt fd)) ''inode'' (PStr ino)))
              else Inr d))"

text \<open>\<open>if b:\<close> for a response body that may be \<open>None\<close> or empty.\<close>

definition truthy :: "string option \<Rightarrow> bool" where
  "truthy b = (case b of None \<Rightarrow> False | Some x \<Rightarrow> x \<noteq> [])"

text \<open>What lines 128 to 154 write to the log.\<close>

definition announce_prologue :: "world \<Rightarrow> fsm_state \<Rightarrow> fsm_state" where
  "announce_prologue w s =
     (let s1 = logger Debug Msg_announcing s;
          s2 = (if snd (get_cmdline w) then logger Debug Msg_announce_sensor_exc s1 else s1)
      in if snd (get_real_pid w) then logger Debug Msg_sched_failed s2 else s2)"

definition announce_sensor :: "world \<Rightarrow> fsm_state \<Rightarrow> (error + bool) \<times> fsm_state" where
  "announce_sensor w s =
     (let s3 = announce_prologue w s
      in case discovery_of w of
           Inl e \<Rightarrow> (Inl e, s3)
         | Inr d \<Rightarrow>
             (let s4 = s3\<lparr>requests := requests s3 @ [d]\<rparr>
              in if truthy (response w) then
                   (case ready w (s4\<lparr>agent_from := response w\<rparr>) of
                      (Inl e, s5) \<Rightarrow> (Inl e, s5)
                    | (Inr u, s5) \<Rightarrow> (Inr True, logger Info (Msg_in_business (getpid w)) s5))
                 else
                   (Inr False,
                    schedule_retry Call_announce_sensor ''announce''
                      (logger Debug Msg_cannot_announce s4))))"

definition announce :: "world \<Rightarrow> fsm_state \<Rightarrow> (error + unit) \<times> fsm_state" where
  "announce w s = fysom_event Ev_announce (announce_sensor w) w s"

subsection \<open>The lookup step: \<open>Fsm.lookup_agent_host\<close>\<close>

definition check_host :: "world \<Rightarrow> string \<Rightarrow> int \<Rightarrow> fsm_state \<Rightarrow> string option \<times> fsm_state" where
  "check_host w host port s = (request_header w host, logger Debug (Msg_checking host port) s)"

definition get_default_gateway :: "world \<Rightarrow> fsm_state \<Rightarrow> string option \<times> fsm_state" where
  "get_default_gateway w s =
     (let s1 = logger Debug Msg_checking_gateway s
      in case ip_route w of
           None \<Rightarrow> (None, logger Error Msg_exception s1)
         | Some addr \<Rightarrow> (Some addr, s1))"

text \<open>Lines 83 to 86, and again 92 to 95: the endpoint is written to the agent object,
  then the event \<open>announce\<close> is fired.\<close>

definition agent_found :: "world \<Rightarrow> string \<Rightarrow> int \<Rightarrow> fsm_state \<Rightarrow> (error + bool) \<times> fsm_state" where
  "agent_found w host port s =
     (case announce w (s\<lparr>agent_host := Some host, agent_port := Some port\<rparr>) of
        (Inl e, s1) \<Rightarrow> (Inl e, s1)
      | (Inr u, s1) \<Rightarrow> (Inr True, s1))"

text \<open>Lines 97 to 102: the warning behind its latch, and the retry.\<close>

definition agent_not_found :: "fsm_state \<Rightarrow> (error + bool) \<times> fsm_state" where
  "agent_not_found s =
     (let s1 = (if \<not> warnedPeriodic s
                then (logger Warning Msg_not_found s)\<lparr>warnedPeriodic := True\<rparr>
                else s)
      in (Inr False, schedule_retry Call_lookup_agent_host ''agent_lookup'' s1))"

definition lookup_agent_host :: "agent_const \<Rightarrow> world \<Rightarrow> fsm_state \<Rightarrow> (error + bool) \<times> fsm_state" where
  "lookup_agent_host c w s =
     (case get_agent_host_port c w of
        Inl e \<Rightarrow> (Inl e, s)
      | Inr (host, port) \<Rightarrow>
          (case check_host w host port s of
             (h, s1) \<Rightarrow>
               if h = Some (AGENT_HEADER c) then agent_found w host port s1
               else if proc_exists w then
                 (case get_default_gateway w s1 of
                    (None, s2) \<Rightarrow> agent_not_found s2
                  | (Some gw, s2) \<Rightarrow>
                      if gw \<noteq> [] then
                        (case check_host w gw port s2 of
                           (h2, s3) \<Rightarrow>
                             if h2 = Some (AGENT_HEADER c) then agent_found w gw port s3
                             else agent_not_found s3)
                      else agent_not_found s2)
               else agent_not_found s1))"

definition lookup :: "agent_const \<Rightarrow> world \<Rightarrow> fsm_state \<Rightarrow> (error + unit) \<times> fsm_state" where
  "lookup c w s = fysom_event Ev_lookup (lookup_agent_host c w) w s"

definition reset :: "agent_const \<Rightarrow> world \<Rightarrow> fsm_state \<Rightarrow> (error + unit) \<times> fsm_state" where
  "reset c w s = lookup c w s"

subsection \<open>Construction, and executions of one machine\<close>

text \<open>\<open>Fsm.__init__\<close>: the machine is in fysom's state \<open>none\<close>, and the start-up timer
  that will call \<open>fsm.lookup\<close> is running.\<close>

definition Fsm_init :: fsm_state where
  "Fsm_init =
     \<lparr>current = St_none, agent_host = None, agent_port = None, agent_from = None,
      warnedPeriodic = False, timer = None,
      timers = [\<lparr>interval = 2, daemon = True, label = ''Startup'', callee = Call_fsm_lookup\<rparr>],
      logged = [(Info, Msg_stan), (Debug, Msg_initializing)],
      meter_runs = 0, requests = []\<rparr>"

text \<open>
  An execution is a sequence of actions: a running timer fires (\<open>Fire i w\<close>, the timer
  at position \<open>i\<close> of \<open>timers\<close>), or somebody calls \<open>reset()\<close>; \<open>w\<close> is what the step
  finds outside. An exception ends the thread of the timer or goes to the caller of
  \<open>reset\<close>; what the step had changed until then stays. Steps are taken one after
  the other: two threads inside the module at the same time are not modelled.
\<close>

datatype action = Fire nat world | Reset world

definition fire :: "agent_const \<Rightarrow> nat \<Rightarrow> world \<Rightarrow> fsm_state \<Rightarrow> fsm_state" where
  "fire c i w s =
     (if i < length (timers s) then
        (let t = timers s ! i;
             s1 = s\<lparr>timers := take i (timers s) @ drop (Suc i) (timers s)\<rparr>
         in case callee t of
              Call_fsm_lookup \<Rightarrow> snd (lookup c w s1)
            | Call_lookup_agent_host \<Rightarrow> snd (lookup_agent_host c w s1)
            | Call_announce_sensor \<Rightarrow> snd (announce_sensor w s1))
      else s)"

fun step :: "agent_const \<Rightarrow> action \<Rightarrow> fsm_state \<Rightarrow> fsm_state" where
  "step c (Fire i w) s = fire c i w s"
| "step c (Reset w) s = snd (reset c w s)"

definition run :: "agent_const \<Rightarrow> action list \<Rightarrow> fsm_state \<Rightarrow> fsm_state" where
  "run c acts s = foldl (\<lambda>s a. step c a s) s acts"

fun is_reset :: "action \<Rightarrow> bool" where
  "is_reset (Reset w) = True"
| "is_reset (Fire i w) = False"

text \<open>The order of the states, and what is counted in the log.\<close>

fun rank :: "fstate \<Rightarrow> nat" where
  "rank St_none = 0"
| "rank St_found = 1"
| "rank St_announced = 2"
| "rank St_good2go = 3"

definition warnings :: "fsm_state \<Rightarrow> nat" where
  "warnings s = length (filter (\<lambda>r. r = (Warning, Msg_not_found)) (logged s))"

text \<open>
  Two relations between the state before and after a step. \<open>advances\<close>: the state has
  not moved backward, and \<open>meter.run\<close> was called once if the step reached \<open>good2go\<close>
  and not at all otherwise. \<open>latched\<close>: the latch was not cleared, and the warning was
  logged once if the step set the latch and not at all otherwise.
\<close>

definition advances :: "fsm_state \<Rightarrow> fsm_state \<Rightarrow> bool" where
  "advances s s' =
     (rank (current s) \<le> rank (current s') \<and>
      meter_runs s' = (if current s' = St_good2go \<and> current s \<noteq> St_good2go
                       then Suc (meter_runs s) else meter_runs s))"

definition latched :: "fsm_state \<Rightarrow> fsm_state \<Rightarrow> bool" where
  "latched s s' =
     ((warnedPeriodic s' \<or> \<not> warnedPeriodic s) \<and>
      warnings s' = (if warnedPeriodic s' \<and> \<not> warnedPeriodic s
                     then Suc (warnings s) else warnings s))"

text \<open>A log record that is neither the warning nor above debug level, but for the
  error record of a failed routing-table query.\<close>

definition quiet :: "level \<times> logmsg \<Rightarrow> bool" where
  "quiet r = (fst r = Debug \<or> r = (Error, Msg_exception))"

text \<open>
  A machine is \<open>steady\<close> when no timer that would fire the event \<open>lookup\<close> is running,
  or it is as constructed, with the start-up timer as its only timer; and \<open>meter.run\<close>
  has been called once if it is in \<open>good2go\<close> and not at all otherwise.
\<close>

definition steady :: "fsm_state \<Rightarrow> bool" where
  "steady s =
     ((list_all (\<lambda>t. callee t \<noteq> Call_fsm_lookup) (timers s)
        \<or> (current s = St_none \<and> length (timers s) = 1))
      \<and> meter_runs s = (if current s = St_good2go then 1 else 0))"

subsection \<open>Concrete surroundings\<close>

text \<open>
  Values for the constants, and some worlds: \<open>world0\<close> has nothing configured, no agent
  and no /proc; \<open>world_silent\<close> has the host set in the environment and an agent there
  that answers the probe but not the announcement; \<open>world_agent\<close> has an agent that
  answers both; \<open>world_bad_port\<close> has the host set and a port variable that is not a
  number, \<open>4269x\<close>, on which \<open>int\<close> raises; \<open>world_alias_bad_port\<close> has the same port
  variable with the deprecated host variable; \<open>world_linux\<close> has /proc, a scheduler
  file that names the pid 1234 where the process sees itself as 7, and an agent;
  \<open>world_no_route\<close> has /proc, no agent, and a routing-table query that raises.
\<close>

definition agent0 :: agent_const where
  "agent0 = \<lparr>AGENT_HEADER = ''Instana Agent'', AGENT_DEFAULT_HOST = ''localhost'',
             AGENT_DEFAULT_PORT = 42699\<rparr>"

definition world0 :: world where
  "world0 =
     \<lparr>environ = Map.empty, int_port = None, opt_agent_host = [], opt_agent_port = 0,
      request_header = (\<lambda>h. None), proc_exists = False, ip_route = None, getpid = 7,
      cmdline_file = Absent, ps_command = None, argv = [''app.py'', ''--serve''],
      sched_pid = Absent, sock = None, response = None\<rparr>"

definition world_silent :: world where
  "world_silent =
     world0\<lparr>environ := [''INSTANA_AGENT_HOST'' \<mapsto> ''10.0.0.5''],
            request_header := (\<lambda>h. if h = ''10.0.0.5'' then Some ''Instana Agent'' else None)\<rparr>"

definition world_agent :: world where
  "world_agent = world_silent\<lparr>response := Some ''pid=4711''\<rparr>"

definition world_bad_port :: world where
  "world_bad_port =
     world0\<lparr>environ := [''INSTANA_AGENT_HOST'' \<mapsto> ''10.0.0.5'',
                         ''INSTANA_AGENT_PORT'' \<mapsto> ''4269x''],
            int_port := None\<rparr>"

definition world_alias_bad_port :: world where
  "world_alias_bad_port =
     world0\<lparr>environ := [''INSTANA_AGENT_IP'' \<mapsto> ''10.9.9.9'',
                         ''INSTANA_AGENT_PORT'' \<mapsto> ''4269x''],
            int_port := None\<rparr>"

definition world_linux :: world where
  "world_linux =
     world_agent\<lparr>proc_exists := True,
                 cmdline_file := Content (''python'' @ [CHR 0x00] @ ''app.py''),
                 sched_pid := Content 1234,
                 sock := Some (5, ''socket:[12345]'')\<rparr>"

definition world_no_route :: world where
  "world_no_route = world0\<lparr>proc_exists := True\<rparr>"

text \<open>The record that \<open>announce_sensor\<close> builds in \<open>world_linux\<close>.\<close>

definition discovery_linux :: discovery where
  "discovery_linux =
     setattr (setattr (Discovery [(''pid'', PInt 1234), (''name'', PStr ''python''),
                                  (''args'', PList [''app.py''])])
                ''fd'' (PInt 5)) ''inode'' (PStr ''socket:[12345]'')"

text \<open>A machine that has fired \<open>lookup\<close> and is waiting.\<close>

definition state_found :: fsm_state where
  "state_found = Fsm_init\<lparr>current := St_found, timers := []\<rparr>"

section \<open>Auxiliary facts\<close>

subsection \<open>What each operation leaves in the state\<close>

lemma logger_fields [simp]:
  "current (logger l m s) = current s"
  "meter_runs (logger l m s) = meter_runs s"
  "timers (logger l m s) = timers s"
  "warnedPeriodic (logger l m s) = warnedPeriodic s"
  "requests (logger l m s) = requests s"
  "agent_host (logger l m s) = agent_host s"
  "agent_port (logger l m s) = agent_port s"
  "logged (logger l m s) = logged s @ [(l, m)]"
  by (simp_all add: logger_def)

lemma schedule_retry_fields [simp]:
  "current (schedule_retry f n s) = current s"
  "meter_runs (schedule_retry f n s) = meter_runs s"
  "timers (schedule_retry f n s) =
     timers s @ [\<lparr>interval = RETRY_PERIOD, daemon = True, label = n, callee = f\<rparr>]"
  "warnedPeriodic (schedule_retry f n s) = warnedPeriodic s"
  "requests (schedule_retry f n s) = requests s"
  "agent_host (schedule_retry f n s) = agent_host s"
  "agent_port (schedule_retry f n s) = agent_port s"
  "logged (schedule_retry f n s) = logged s @ [(Debug, Msg_scheduling n)]"
  by (simp_all add: schedule_retry_def Let_def)

lemma announce_prologue_fields [simp]:
  "current (announce_prologue w s) = current s"
  "meter_runs (announce_prologue w s) = meter_runs s"
  "timers (announce_prologue w s) = timers s"
  "warnedPeriodic (announce_prologue w s) = warnedPeriodic s"
  "requests (announce_prologue w s) = requests s"
  "agent_host (announce_prologue w s) = agent_host s"
  "agent_port (announce_prologue w s) = agent_port s"
  by (simp_all add: announce_prologue_def Let_def)

lemma warnings_append [simp]:
  "warnings (s\<lparr>logged := logged s @ xs\<rparr>) =
     warnings s + length (filter (\<lambda>r. r = (Warning, Msg_not_found)) xs)"
  by (simp add: warnings_def)

lemma warnings_logger [simp]:
  "warnings (logger l m s) = warnings s + (if (l, m) = (Warning, Msg_not_found) then 1 else 0)"
  by (simp add: warnings_def)

lemma warnings_updates [simp]:
  "warnings (s\<lparr>current := x\<rparr>) = warnings s"
  "warnings (s\<lparr>agent_host := h\<rparr>) = warnings s"
  "warnings (s\<lparr>agent_port := p\<rparr>) = warnings s"
  "warnings (s\<lparr>agent_from := b\<rparr>) = warnings s"
  "warnings (s\<lparr>requests := ds\<rparr>) = warnings s"
  "warnings (s\<lparr>meter_runs := n\<rparr>) = warnings s"
  "warnings (s\<lparr>timers := ts\<rparr>) = warnings s"
  "warnings (s\<lparr>warnedPeriodic := b'\<rparr>) = warnings s"
  by (simp_all add: warnings_def)

lemma warnings_schedule_retry [simp]:
  "warnings (schedule_retry f n s) = warnings s"
  by (simp add: warnings_def)

lemma warnings_announce_prologue [simp]:
  "warnings (announce_prologue w s) = warnings s"
  by (simp add: announce_prologue_def Let_def)

lemma snd_fysom_event:
  "snd (fysom_event ev after_event w s) =
     (case event_map ev (current s) of
        None \<Rightarrow> s
      | Some dst \<Rightarrow>
          snd (after_event (if current s = dst then s
                            else printstatechange w ev (current s) dst (s\<lparr>current := dst\<rparr>))))"
  by (auto simp: fysom_event_def Let_def split: option.splits prod.splits sum.splits)

lemma snd_ready:
  "snd (ready w s) =
     (if current s = St_announced
      then (printstatechange w Ev_ready St_announced St_good2go (s\<lparr>current := St_good2go\<rparr>))
             \<lparr>meter_runs := Suc (meter_runs s)\<rparr>
      else s)"
  by (simp add: ready_def snd_fysom_event event_map_def start_metric_reporting_def
      printstatechange_def logger_def)

lemma snd_announce:
  "snd (announce w s) =
     (if current s = St_found
      then snd (announce_sensor w
                  (printstatechange w Ev_announce St_found St_announced (s\<lparr>current := St_announced\<rparr>)))
      else s)"
  by (simp add: announce_def snd_fysom_event event_map_def)

lemma snd_lookup:
  "snd (lookup c w s) =
     snd (lookup_agent_host c w
            (if current s = St_found then s
             else printstatechange w Ev_lookup (current s) St_found (s\<lparr>current := St_found\<rparr>)))"
  by (simp add: lookup_def snd_fysom_event event_map_def)

lemma snd_agent_found:
  "snd (agent_found w host port s) =
     snd (announce w (s\<lparr>agent_host := Some host, agent_port := Some port\<rparr>))"
  by (simp add: agent_found_def split: prod.splits sum.splits)

lemma fst_agent_found: "fst (agent_found w host port s) \<noteq> Inr False"
  by (simp add: agent_found_def split: prod.splits sum.splits)

lemma snd_announce_sensor:
  "snd (announce_sensor w s) =
     (case discovery_of w of
        Inl e \<Rightarrow> announce_prologue w s
      | Inr d \<Rightarrow>
          (let s4 = (announce_prologue w s)\<lparr>requests := requests (announce_prologue w s) @ [d]\<rparr>
           in if truthy (response w) then
                (if current s = St_announced
                 then logger Info (Msg_in_business (getpid w))
                        (snd (ready w (s4\<lparr>agent_from := response w\<rparr>)))
                 else s4\<lparr>agent_from := response w\<rparr>)
              else schedule_retry Call_announce_sensor ''announce''
                     (logger Debug Msg_cannot_announce s4)))"
  by (auto simp: announce_sensor_def Let_def
        ready_def fysom_event_def event_map_def start_metric_reporting_def
       split: sum.splits prod.splits option.splits)

lemma agent_not_found_fields [simp]:
  "fst (agent_not_found s) = Inr False"
  "current (snd (agent_not_found s)) = current s"
  "meter_runs (snd (agent_not_found s)) = meter_runs s"
  "timers (snd (agent_not_found s)) =
     timers s @ [\<lparr>interval = RETRY_PERIOD, daemon = True, label = ''agent_lookup'',
                  callee = Call_lookup_agent_host\<rparr>]"
  "warnedPeriodic (snd (agent_not_found s)) = True"
  "requests (snd (agent_not_found s)) = requests s"
  "agent_host (snd (agent_not_found s)) = agent_host s"
  "agent_port (snd (agent_not_found s)) = agent_port s"
  "warnings (snd (agent_not_found s)) = (if warnedPeriodic s then warnings s else Suc (warnings s))"
  "logged (snd (agent_not_found s)) =
     logged s @ (if warnedPeriodic s then [] else [(Warning, Msg_not_found)])
       @ [(Debug, Msg_scheduling ''agent_lookup'')]"
  by (simp_all add: agent_not_found_def Let_def)

lemma check_host_fields [simp]:
  "fst (check_host w h p s) = request_header w h"
  "current (snd (check_host w h p s)) = current s"
  "meter_runs (snd (check_host w h p s)) = meter_runs s"
  "timers (snd (check_host w h p s)) = timers s"
  "warnedPeriodic (snd (check_host w h p s)) = warnedPeriodic s"
  "requests (snd (check_host w h p s)) = requests s"
  "agent_host (snd (check_host w h p s)) = agent_host s"
  "agent_port (snd (check_host w h p s)) = agent_port s"
  "warnings (snd (check_host w h p s)) = warnings s"
  "logged (snd (check_host w h p s)) = logged s @ [(Debug, Msg_checking h p)]"
  by (simp_all add: check_host_def)

lemma get_default_gateway_fields [simp]:
  "fst (get_default_gateway w s) = ip_route w"
  "current (snd (get_default_gateway w s)) = current s"
  "meter_runs (snd (get_default_gateway w s)) = meter_runs s"
  "timers (snd (get_default_gateway w s)) = timers s"
  "warnedPeriodic (snd (get_default_gateway w s)) = warnedPeriodic s"
  "requests (snd (get_default_gateway w s)) = requests s"
  "agent_host (snd (get_default_gateway w s)) = agent_host s"
  "agent_port (snd (get_default_gateway w s)) = agent_port s"
  "warnings (snd (get_default_gateway w s)) = warnings s"
  "logged (snd (get_default_gateway w s)) =
     logged s @ (Debug, Msg_checking_gateway)
       # (if ip_route w = None then [(Error, Msg_exception)] else [])"
  by (simp_all add: get_default_gateway_def Let_def split: option.splits)

subsection \<open>The three ends of the lookup step\<close>

text \<open>
  \<open>lookup_agent_host\<close> raises while it resolves the endpoint, or it finds the agent at
  the resolved host or at the gateway and goes on to announce, or it gives up and
  schedules a retry. Until then it has only written to the log.
\<close>

lemma lookup_agent_host_cases:
  obtains (raised) e where "get_agent_host_port c w = Inl e" "lookup_agent_host c w s = (Inl e, s)"
  | (found) host port s1 where
      "current s1 = current s" "meter_runs s1 = meter_runs s" "timers s1 = timers s"
      "warnedPeriodic s1 = warnedPeriodic s" "warnings s1 = warnings s"
      "lookup_agent_host c w s = agent_found w host port s1"
  | (not_found) s1 xs where
      "current s1 = current s" "meter_runs s1 = meter_runs s" "timers s1 = timers s"
      "warnedPeriodic s1 = warnedPeriodic s" "warnings s1 = warnings s"
      "agent_host s1 = agent_host s" "agent_port s1 = agent_port s"
      "logged s1 = logged s @ xs" "list_all quiet xs"
      "lookup_agent_host c w s = agent_not_found s1"
proof (cases "get_agent_host_port c w")
  case (Inl e)
  then show ?thesis using raised by (simp add: lookup_agent_host_def)
next
  case (Inr hp)
  obtain host port where hp: "hp = (host, port)" by (cases hp)
  let ?s1 = "snd (check_host w host port s)"
  let ?s2 = "snd (get_default_gateway w ?s1)"
  show ?thesis
  proof (cases "request_header w host = Some (AGENT_HEADER c)")
    case True
    then have "lookup_agent_host c w s = agent_found w host port ?s1"
      using Inr hp by (simp add: lookup_agent_host_def split: prod.splits) (simp add: check_host_def)
    then show ?thesis using found [of ?s1 host port] by simp
  next
    case False
    note miss = False
    show ?thesis
    proof (cases "proc_exists w")
      case False
      then have "lookup_agent_host c w s = agent_not_found ?s1"
        using Inr hp miss by (simp add: lookup_agent_host_def split: prod.splits) (simp add: check_host_def)
      then show ?thesis using not_found [of ?s1 "[(Debug, Msg_checking host port)]"]
        by (simp add: quiet_def)
    next
      case True
      note proc = True
      show ?thesis
      proof (cases "\<exists>gw. ip_route w = Some gw \<and> gw \<noteq> []")
        case False
        then have "lookup_agent_host c w s = agent_not_found ?s2"
          using Inr hp miss proc
          by (auto simp: lookup_agent_host_def check_host_def get_default_gateway_def Let_def
                split: prod.splits option.splits)
        then show ?thesis
          using not_found [of ?s2 "(Debug, Msg_checking host port) # (Debug, Msg_checking_gateway)
              # (if ip_route w = None then [(Error, Msg_exception)] else [])"]
          by (simp add: quiet_def)
      next
        case True
        then obtain gw where gw: "ip_route w = Some gw" "gw \<noteq> []" by blast
        let ?s3 = "snd (check_host w gw port ?s2)"
        show ?thesis
        proof (cases "request_header w gw = Some (AGENT_HEADER c)")
          case True
          then have "lookup_agent_host c w s = agent_found w gw port ?s3"
            using Inr hp miss proc gw
            by (auto simp: lookup_agent_host_def check_host_def get_default_gateway_def Let_def
                  split: prod.splits option.splits)
          then show ?thesis using found [of ?s3 gw port] by simp
        next
          case False
          then have "lookup_agent_host c w s = agent_not_found ?s3"
            using Inr hp miss proc gw
            by (auto simp: lookup_agent_host_def check_host_def get_default_gateway_def Let_def
                  split: prod.splits option.splits)
          then show ?thesis
            using not_found [of ?s3 "[(Debug, Msg_checking host port), (Debug, Msg_checking_gateway),
                (Debug, Msg_checking gw port)]"] gw
            by (simp add: quiet_def)
        qed
      qed
    qed
  qed
qed

subsection \<open>No step but the event \<open>lookup\<close> moves the state backward\<close>

lemma advances_same:
  "current s' = current s \<Longrightarrow> meter_runs s' = meter_runs s \<Longrightarrow> advances s s'"
  by (simp add: advances_def)

lemma advances_trans:
  "advances s s' \<Longrightarrow> advances s' s'' \<Longrightarrow> advances s s''"
  unfolding advances_def
  by (cases "current s"; cases "current s'"; cases "current s''"; simp)

lemma ready_advances: "advances s (snd (ready w s))"
  by (simp add: snd_ready advances_def printstatechange_def)

lemma announce_sensor_advances: "advances s (snd (announce_sensor w s))"
proof (cases "discovery_of w")
  case (Inl e)
  then show ?thesis by (simp add: snd_announce_sensor advances_same)
next
  case (Inr d)
  show ?thesis
  proof (cases "truthy (response w) \<and> current s = St_announced")
    case True
    then show ?thesis using Inr
      by (simp add: snd_announce_sensor snd_ready advances_def printstatechange_def Let_def)
  next
    case False
    then show ?thesis using Inr
      by (auto simp: snd_announce_sensor Let_def intro!: advances_same)
  qed
qed

lemma announce_advances: "advances s (snd (announce w s))"
proof (cases "current s = St_found")
  case True
  let ?s1 = "printstatechange w Ev_announce St_found St_announced (s\<lparr>current := St_announced\<rparr>)"
  have "advances s ?s1" using True by (simp add: advances_def printstatechange_def)
  moreover have "advances ?s1 (snd (announce_sensor w ?s1))" by (rule announce_sensor_advances)
  ultimately show ?thesis using True by (simp add: snd_announce advances_trans)
next
  case False
  then show ?thesis by (simp add: snd_announce advances_same)
qed

lemma agent_found_advances: "advances s (snd (agent_found w host port s))"
proof -
  let ?s1 = "s\<lparr>agent_host := Some host, agent_port := Some port\<rparr>"
  have "advances s ?s1" by (simp add: advances_same)
  moreover have "advances ?s1 (snd (announce w ?s1))" by (rule announce_advances)
  ultimately show ?thesis by (simp add: snd_agent_found advances_trans)
qed

lemma lookup_agent_host_advances: "advances s (snd (lookup_agent_host c w s))"
proof (cases c w s rule: lookup_agent_host_cases)
  case (raised e)
  then show ?thesis by (simp add: advances_same)
next
  case (found host port s1)
  have "advances s s1" using found by (simp add: advances_same)
  moreover have "advances s1 (snd (agent_found w host port s1))" by (rule agent_found_advances)
  ultimately show ?thesis using found by (simp add: advances_trans)
next
  case (not_found s1)
  then show ?thesis by (simp add: advances_same)
qed

text \<open>The event \<open>lookup\<close> advances a machine that has not gone beyond \<open>found\<close>.\<close>

lemma lookup_advances:
  assumes "current s = St_none \<or> current s = St_found"
  shows "advances s (snd (lookup c w s))"
proof -
  let ?s1 = "if current s = St_found then s
             else printstatechange w Ev_lookup (current s) St_found (s\<lparr>current := St_found\<rparr>)"
  have "advances s ?s1" using assms by (auto simp: advances_def printstatechange_def)
  moreover have "advances ?s1 (snd (lookup_agent_host c w ?s1))"
    by (rule lookup_agent_host_advances)
  ultimately show ?thesis unfolding snd_lookup by (rule advances_trans)
qed

subsection \<open>Retries are the only timers a step starts\<close>

lemma announce_sensor_timers:
  "t \<in> set (timers (snd (announce_sensor w s))) \<Longrightarrow>
     t \<in> set (timers s) \<or> callee t = Call_announce_sensor"
  by (auto simp: snd_announce_sensor snd_ready printstatechange_def Let_def
        split: sum.splits if_splits)

lemma lookup_agent_host_timers:
  "t \<in> set (timers (snd (lookup_agent_host c w s))) \<Longrightarrow>
     t \<in> set (timers s) \<or> callee t = Call_announce_sensor \<or> callee t = Call_lookup_agent_host"
proof (cases c w s rule: lookup_agent_host_cases)
  case (raised e)
  assume "t \<in> set (timers (snd (lookup_agent_host c w s)))"
  then show ?thesis using raised by simp
next
  case (found host port s1)
  assume "t \<in> set (timers (snd (lookup_agent_host c w s)))"
  then show ?thesis using found
    by (auto simp: snd_agent_found snd_announce printstatechange_def split: if_splits
          dest!: announce_sensor_timers)
next
  case (not_found s1)
  assume "t \<in> set (timers (snd (lookup_agent_host c w s)))"
  then show ?thesis using not_found by auto
qed

lemma lookup_timers:
  "t \<in> set (timers (snd (lookup c w s))) \<Longrightarrow>
     t \<in> set (timers s) \<or> callee t = Call_announce_sensor \<or> callee t = Call_lookup_agent_host"
  unfolding snd_lookup
  by (drule lookup_agent_host_timers) (auto simp: printstatechange_def split: if_splits)

subsection \<open>The latch\<close>

lemma latched_same:
  "warnedPeriodic s' = warnedPeriodic s \<Longrightarrow> warnings s' = warnings s \<Longrightarrow> latched s s'"
  by (simp add: latched_def)

lemma latched_trans:
  "latched s s' \<Longrightarrow> latched s' s'' \<Longrightarrow> latched s s''"
  unfolding latched_def by (auto split: if_splits)

lemma announce_sensor_latched: "latched s (snd (announce_sensor w s))"
  by (auto simp: snd_announce_sensor snd_ready printstatechange_def Let_def
        intro!: latched_same split: sum.splits)

lemma announce_latched: "latched s (snd (announce w s))"
proof (cases "current s = St_found")
  case True
  let ?s1 = "printstatechange w Ev_announce St_found St_announced (s\<lparr>current := St_announced\<rparr>)"
  have "latched s ?s1" by (simp add: latched_same printstatechange_def)
  moreover have "latched ?s1 (snd (announce_sensor w ?s1))" by (rule announce_sensor_latched)
  ultimately show ?thesis using True by (simp add: snd_announce latched_trans)
next
  case False
  then show ?thesis by (simp add: snd_announce latched_same)
qed

lemma lookup_agent_host_latched: "latched s (snd (lookup_agent_host c w s))"
proof (cases c w s rule: lookup_agent_host_cases)
  case (raised e)
  then show ?thesis by (simp add: latched_same)
next
  case (found host port s1)
  let ?s2 = "s1\<lparr>agent_host := Some host, agent_port := Some port\<rparr>"
  have "latched s ?s2" using found by (simp add: latched_same)
  moreover have "latched ?s2 (snd (announce w ?s2))" by (rule announce_latched)
  ultimately show ?thesis using found by (simp add: snd_agent_found latched_trans)
next
  case (not_found s1)
  then show ?thesis by (simp add: latched_def)
qed

lemma lookup_latched: "latched s (snd (lookup c w s))"
proof -
  let ?s1 = "if current s = St_found then s
             else printstatechange w Ev_lookup (current s) St_found (s\<lparr>current := St_found\<rparr>)"
  have "latched s ?s1" by (simp add: latched_same printstatechange_def)
  moreover have "latched ?s1 (snd (lookup_agent_host c w ?s1))"
    by (rule lookup_agent_host_latched)
  ultimately show ?thesis unfolding snd_lookup by (rule latched_trans)
qed

lemma step_latched: "latched s (step c a s)"
proof (cases a)
  case (Fire i w)
  show ?thesis
  proof (cases "i < length (timers s)")
    case True
    let ?s1 = "s\<lparr>timers := take i (timers s) @ drop (Suc i) (timers s)\<rparr>"
    have a: "latched s ?s1" by (simp add: latched_same)
    have "latched ?s1 (fire c i w s)"
      using True lookup_latched [of ?s1 c w] lookup_agent_host_latched [of ?s1 c w]
        announce_sensor_latched [of ?s1 w]
      by (simp add: fire_def Let_def split: target.splits)
    with a show ?thesis using Fire by (auto intro: latched_trans)
  next
    case False
    then show ?thesis using Fire by (simp add: fire_def latched_same)
  qed
next
  case (Reset w)
  then show ?thesis by (simp add: reset_def lookup_latched)
qed

lemma run_snoc: "run c (acts @ [a]) s = step c a (run c acts s)"
  by (simp add: run_def)

lemma run_append: "run c (acts @ rest) s = run c rest (run c acts s)"
  by (simp add: run_def)

lemma run_latched: "latched s (run c acts s)"
proof (induction acts rule: rev_induct)
  case Nil
  show ?case by (simp add: run_def latched_same)
next
  case (snoc a acts)
  then show ?case using step_latched [of "run c acts s" c a]
    by (auto simp: run_snoc intro: latched_trans)
qed



subsection \<open>Executions without \<open>reset\<close>\<close>

lemma advances_meter:
  "advances s s' \<Longrightarrow> meter_runs s = (if current s = St_good2go then 1 else 0) \<Longrightarrow>
     meter_runs s' = (if current s' = St_good2go then 1 else 0)"
  unfolding advances_def by (cases "current s"; cases "current s'"; simp)

lemma fire_cases:
  assumes "i < length (timers s)"
  obtains s1 where "current s1 = current s" "meter_runs s1 = meter_runs s"
      "set (timers s1) \<subseteq> set (timers s)" "length (timers s1) < length (timers s)"
      "fire c i w s =
         (case callee (timers s ! i) of
            Call_fsm_lookup \<Rightarrow> snd (lookup c w s1)
          | Call_lookup_agent_host \<Rightarrow> snd (lookup_agent_host c w s1)
          | Call_announce_sensor \<Rightarrow> snd (announce_sensor w s1))"
proof -
  let ?s1 = "s\<lparr>timers := take i (timers s) @ drop (Suc i) (timers s)\<rparr>"
  have "set (take i (timers s) @ drop (Suc i) (timers s)) \<subseteq> set (timers s)"
    using set_take_subset set_drop_subset by fastforce
  then show ?thesis using that [of ?s1] assms by (simp add: fire_def Let_def)
qed

text \<open>
  A machine is \<open>steady\<close> while the start-up timer has fired or the machine is as
  constructed. Firing a timer keeps it so and does not move it backward.
\<close>

lemma fire_steady:
  assumes "steady s"
  shows "steady (fire c i w s) \<and> advances s (fire c i w s)"
proof (cases "i < length (timers s)")
  case False
  then show ?thesis using assms by (simp add: fire_def advances_same)
next
  case True
  then obtain s1 where s1: "current s1 = current s" "meter_runs s1 = meter_runs s"
      "set (timers s1) \<subseteq> set (timers s)" "length (timers s1) < length (timers s)"
      "fire c i w s =
         (case callee (timers s ! i) of
            Call_fsm_lookup \<Rightarrow> snd (lookup c w s1)
          | Call_lookup_agent_host \<Rightarrow> snd (lookup_agent_host c w s1)
          | Call_announce_sensor \<Rightarrow> snd (announce_sensor w s1))"
    by (rule fire_cases)
  have mem: "timers s ! i \<in> set (timers s)" using True by simp
  have a0: "advances s s1" using s1 by (simp add: advances_same)
  show ?thesis
  proof (cases "callee (timers s ! i)")
    case Call_fsm_lookup
    then have "\<not> list_all (\<lambda>t. callee t \<noteq> Call_fsm_lookup) (timers s)"
      using mem by (auto simp: list_all_iff)
    then have init: "current s = St_none" "length (timers s) = 1"
      using assms by (auto simp: steady_def)
    then have e: "timers s1 = []" using s1(4) by simp
    have adv: "advances s1 (snd (lookup c w s1))"
      using init s1 by (intro lookup_advances) simp
    have tm: "list_all (\<lambda>t. callee t \<noteq> Call_fsm_lookup) (timers (snd (lookup c w s1)))"
      using e by (auto simp: list_all_iff dest!: lookup_timers)
    have "advances s (fire c i w s)"
      using a0 adv s1(5) Call_fsm_lookup by (auto intro: advances_trans)
    moreover have "steady (fire c i w s)"
      using tm advances_meter [OF \<open>advances s (fire c i w s)\<close>] assms s1(5) Call_fsm_lookup
      by (simp add: steady_def)
    ultimately show ?thesis by simp
  next
    case Call_lookup_agent_host
    then have ns: "list_all (\<lambda>t. callee t \<noteq> Call_fsm_lookup) (timers s)"
      using assms mem True by (cases "timers s") (auto simp: steady_def)
    have adv: "advances s1 (snd (lookup_agent_host c w s1))" by (rule lookup_agent_host_advances)
    have tm: "list_all (\<lambda>t. callee t \<noteq> Call_fsm_lookup) (timers (snd (lookup_agent_host c w s1)))"
      using ns s1(3) by (auto simp: list_all_iff dest!: lookup_agent_host_timers)
    have "advances s (fire c i w s)"
      using a0 adv s1(5) Call_lookup_agent_host by (auto intro: advances_trans)
    moreover have "steady (fire c i w s)"
      using tm advances_meter [OF \<open>advances s (fire c i w s)\<close>] assms s1(5) Call_lookup_agent_host
      by (simp add: steady_def)
    ultimately show ?thesis by simp
  next
    case Call_announce_sensor
    then have ns: "list_all (\<lambda>t. callee t \<noteq> Call_fsm_lookup) (timers s)"
      using assms mem True by (cases "timers s") (auto simp: steady_def)
    have adv: "advances s1 (snd (announce_sensor w s1))" by (rule announce_sensor_advances)
    have tm: "list_all (\<lambda>t. callee t \<noteq> Call_fsm_lookup) (timers (snd (announce_sensor w s1)))"
      using ns s1(3) by (auto simp: list_all_iff dest!: announce_sensor_timers)
    have "advances s (fire c i w s)"
      using a0 adv s1(5) Call_announce_sensor by (auto intro: advances_trans)
    moreover have "steady (fire c i w s)"
      using tm advances_meter [OF \<open>advances s (fire c i w s)\<close>] assms s1(5) Call_announce_sensor
      by (simp add: steady_def)
    ultimately show ?thesis by simp
  qed
qed

lemma run_steady:
  assumes "steady s" and "list_all (\<lambda>a. \<not> is_reset a) acts"
  shows "steady (run c acts s) \<and> advances s (run c acts s)"
  using assms(2)
proof (induction acts rule: rev_induct)
  case Nil
  show ?case using assms(1) by (simp add: run_def advances_same)
next
  case (snoc a acts)
  then have ih: "steady (run c acts s)" "advances s (run c acts s)" by simp_all
  from snoc.prems obtain i w where a: "a = Fire i w" by (cases a) auto
  show ?case using fire_steady [OF ih(1), of c i w] ih(2) a
    by (auto simp: run_snoc intro: advances_trans)
qed

lemma steady_init: "steady Fsm_init"
  by (simp add: steady_def Fsm_init_def)

subsection \<open>Calls of \<open>meter.run\<close> in one step\<close>

lemma lookup_meter:
  "meter_runs (snd (lookup c w s)) =
     (if current (snd (lookup c w s)) = St_good2go then Suc (meter_runs s) else meter_runs s)"
proof -
  let ?s1 = "if current s = St_found then s
             else printstatechange w Ev_lookup (current s) St_found (s\<lparr>current := St_found\<rparr>)"
  have "advances ?s1 (snd (lookup_agent_host c w ?s1))" by (rule lookup_agent_host_advances)
  then show ?thesis by (auto simp: snd_lookup advances_def printstatechange_def split: if_splits)
qed

lemma step_meter:
  "meter_runs (step c a s) = meter_runs s
   \<or> (meter_runs (step c a s) = Suc (meter_runs s) \<and> current (step c a s) = St_good2go)"
proof (cases a)
  case (Reset w)
  then show ?thesis using lookup_meter [of c w s] by (simp add: reset_def)
next
  case (Fire i w)
  show ?thesis
  proof (cases "i < length (timers s)")
    case False
    then show ?thesis using Fire by (simp add: fire_def)
  next
    case True
    then obtain s1 where s1: "current s1 = current s" "meter_runs s1 = meter_runs s"
      "fire c i w s =
         (case callee (timers s ! i) of
            Call_fsm_lookup \<Rightarrow> snd (lookup c w s1)
          | Call_lookup_agent_host \<Rightarrow> snd (lookup_agent_host c w s1)
          | Call_announce_sensor \<Rightarrow> snd (announce_sensor w s1))"
      by (rule fire_cases)
    show ?thesis
      using s1 Fire lookup_meter [of c w s1] lookup_agent_host_advances [of s1 c w]
        announce_sensor_advances [of s1 w]
      by (auto simp: advances_def split: target.splits if_splits)
  qed
qed

lemma step_enters_ready:
  "current s \<noteq> St_good2go \<and> current (step c a s) = St_good2go \<longrightarrow>
     meter_runs (step c a s) = Suc (meter_runs s)"
proof (cases a)
  case (Reset w)
  then show ?thesis using lookup_meter [of c w s] by (simp add: reset_def)
next
  case (Fire i w)
  show ?thesis
  proof (cases "i < length (timers s)")
    case False
    then show ?thesis using Fire by (simp add: fire_def)
  next
    case True
    then obtain s1 where s1: "current s1 = current s" "meter_runs s1 = meter_runs s"
      "fire c i w s =
         (case callee (timers s ! i) of
            Call_fsm_lookup \<Rightarrow> snd (lookup c w s1)
          | Call_lookup_agent_host \<Rightarrow> snd (lookup_agent_host c w s1)
          | Call_announce_sensor \<Rightarrow> snd (announce_sensor w s1))"
      by (rule fire_cases)
    show ?thesis
      using s1 Fire lookup_meter [of c w s1] lookup_agent_host_advances [of s1 c w]
        announce_sensor_advances [of s1 w]
      by (auto simp: advances_def split: target.splits if_splits)
  qed
qed

subsection \<open>The endpoint on the agent object, and the state after \<open>announce\<close>\<close>

lemma announce_sensor_agent [simp]:
  "agent_host (snd (announce_sensor w s)) = agent_host s"
  "agent_port (snd (announce_sensor w s)) = agent_port s"
  by (auto simp: snd_announce_sensor snd_ready printstatechange_def Let_def split: sum.splits)

lemma announce_agent [simp]:
  "agent_host (snd (announce w s)) = agent_host s"
  "agent_port (snd (announce w s)) = agent_port s"
  by (simp_all add: snd_announce printstatechange_def)

lemma rank_ge_2: "2 \<le> rank x \<longleftrightarrow> x = St_announced \<or> x = St_good2go"
  by (cases x) simp_all

lemma announce_from_found:
  assumes "current s = St_found"
  shows "current (snd (announce w s)) = St_announced \<or> current (snd (announce w s)) = St_good2go"
proof -
  let ?s1 = "printstatechange w Ev_announce St_found St_announced (s\<lparr>current := St_announced\<rparr>)"
  have "advances ?s1 (snd (announce_sensor w ?s1))" by (rule announce_sensor_advances)
  then have "2 \<le> rank (current (snd (announce_sensor w ?s1)))"
    by (simp add: advances_def printstatechange_def)
  then show ?thesis using assms by (simp add: snd_announce rank_ge_2)
qed

subsection \<open>The record handed to the agent, and the log of a failing lookup\<close>

lemma requests_announce_sensor:
  "discovery_of w = Inr d \<Longrightarrow> requests (snd (announce_sensor w s)) = requests s @ [d]"
  by (simp add: snd_announce_sensor snd_ready printstatechange_def Let_def)

lemma discovery_of_fields:
  assumes "discovery_of w = Inr d"
  shows "\<exists>nm args. fst (get_cmdline w) = nm # args
           \<and> d ''pid'' = Some (PInt (fst (get_real_pid w)))
           \<and> d ''name'' = Some (PStr nm) \<and> d ''args'' = Some (PList args)
           \<and> dom d \<subseteq> {''pid'', ''name'', ''args'', ''fd'', ''inode''}"
  using assms
  by (auto simp: discovery_of_def Discovery_def setattr_def Let_def
        split: list.splits if_splits option.splits)

text \<open>
  Without /proc the instance has no \<open>fd\<close> and no \<open>inode\<close> of its own; reading them
  gives the attributes of the class.
\<close>

lemma discovery_without_proc:
  assumes "\<not> proc_exists w" and "discovery_of w = Inr d"
  shows "dom d = {''pid'', ''name'', ''args''}
    \<and> getattr d ''fd'' = Some (PInt (- 1)) \<and> getattr d ''inode'' = Some (PStr [])"
  using assms
  by (auto simp: discovery_of_def Discovery_def Discovery_class_def getattr_def Let_def
        split: list.splits if_splits)

lemma failing_lookup_log:
  assumes "fst (lookup_agent_host c w s) = Inr False"
  shows "\<exists>xs. logged (snd (lookup_agent_host c w s)) =
            logged s @ xs @ (if warnedPeriodic s then [] else [(Warning, Msg_not_found)])
              @ [(Debug, Msg_scheduling ''agent_lookup'')]
          \<and> list_all quiet xs"
proof (cases c w s rule: lookup_agent_host_cases)
  case (raised e)
  then show ?thesis using assms by simp
next
  case (found host port s1)
  then show ?thesis using assms fst_agent_found [of w host port s1] by simp
next
  case (not_found s1 xs)
  then show ?thesis by auto
qed

subsection \<open>Unfolding the model on concrete inputs\<close>

lemmas world_eval = world_linux_def world_agent_def world_silent_def world_no_route_def
  world_bad_port_def world_alias_bad_port_def world0_def agent0_def state_found_def
  Fsm_init_def

lemmas step_eval = run_def fire_def reset_def lookup_def announce_def ready_def fysom_event_def
  event_map_def lookup_agent_host_def get_agent_host_port_def check_host_def
  get_default_gateway_def agent_found_def agent_not_found_def announce_sensor_def
  announce_prologue_def discovery_of_def get_cmdline_def get_real_pid_def truthy_def
  schedule_retry_def logger_def printstatechange_def start_metric_reporting_def Let_def
  RETRY_PERIOD_def

text \<open>With \<open>reset\<close>, the machine does move backward: from \<open>good2go\<close> to \<open>found\<close>.\<close>

lemma reset_moves_backward:
  "current (run agent0 [Fire 0 world_agent] Fsm_init) = St_good2go
   \<and> current (run agent0 [Fire 0 world_agent, Reset world0] Fsm_init) = St_found"
  by (simp add: step_eval world_eval Discovery_def)

section \<open>The claims\<close>

subsection \<open>C1: an announcement without answer\<close>

text \<open>
  Claim C1 says that after an announce attempt with an empty response the state is still
  Found. In the execution below the start-up timer fires, the probe finds the agent, and
  the agent does not answer the announcement: one retry named \<open>announce\<close> is scheduled,
  and the state is Announced. The event \<open>announce\<close> has set it before
  \<open>announce_sensor\<close> ran, and the failure does not set it back.
\<close>

theorem announce_empty_counterexample:
  "current (run agent0 [Fire 0 world_silent] Fsm_init) = St_announced
   \<and> map label (timers (run agent0 [Fire 0 world_silent] Fsm_init)) = [''announce'']"
  by (simp add: step_eval world_eval Discovery_def)

text \<open>
  Claim C1, amended: an announce attempt that gets as far as the request and whose
  response is empty or absent returns False, schedules exactly one retry named
  \<open>announce\<close> and leaves the state as it was. When the attempt is the callback of the
  event \<open>announce\<close>, fired in state Found, the state it leaves is Announced, not Found;
  it is not Ready.
\<close>

theorem announce_empty_retry:
  assumes "\<not> isl (discovery_of w)" and "\<not> truthy (response w)"
  shows "fst (announce_sensor w s) = Inr False
    \<and> timers (snd (announce_sensor w s)) =
        timers s @ [\<lparr>interval = RETRY_PERIOD, daemon = True, label = ''announce'',
                     callee = Call_announce_sensor\<rparr>]
    \<and> current (snd (announce_sensor w s)) = current s
    \<and> (current s = St_found \<longrightarrow>
         current (snd (announce w s)) = St_announced
         \<and> timers (snd (announce w s)) =
             timers s @ [\<lparr>interval = RETRY_PERIOD, daemon = True, label = ''announce'',
                          callee = Call_announce_sensor\<rparr>])"
proof -
  obtain d where d: "discovery_of w = Inr d" using assms(1) by (cases "discovery_of w") auto
  have a: "fst (announce_sensor w s) = Inr False"
    using d assms(2) by (simp add: announce_sensor_def Let_def)
  have b: "\<And>s. timers (snd (announce_sensor w s)) =
        timers s @ [\<lparr>interval = RETRY_PERIOD, daemon = True, label = ''announce'',
                     callee = Call_announce_sensor\<rparr>]"
    using d assms(2) by (simp add: snd_announce_sensor Let_def)
  have c: "\<And>s. current (snd (announce_sensor w s)) = current s"
    using d assms(2) by (simp add: snd_announce_sensor Let_def)
  show ?thesis using a b c by (simp add: snd_announce printstatechange_def)
qed

theorem announce_empty_retry_witness:
  "\<not> isl (discovery_of world_silent) \<and> \<not> truthy (response world_silent)
   \<and> current state_found = St_found
   \<and> current (snd (announce_sensor world_silent state_found)) = St_found
   \<and> current (snd (announce world_silent state_found)) = St_announced
   \<and> map label (timers (snd (announce world_silent state_found))) = [''announce'']"
  using announce_empty_retry [of world_silent state_found]
  by (simp add: world_eval discovery_of_def get_cmdline_def truthy_def)

subsection \<open>C2: a lookup that finds no agent\<close>

text \<open>
  Claim C2 says that after a lookup attempt that finds no agent, on a host without
  /proc, the state is still Unresolved. In the execution below the start-up timer fires
  and the probe gets no header: one retry named \<open>agent_lookup\<close> is scheduled, and the
  state is Found. The event \<open>lookup\<close> has set it before \<open>lookup_agent_host\<close> ran.
\<close>

theorem lookup_miss_counterexample:
  "current (run agent0 [Fire 0 world0] Fsm_init) = St_found
   \<and> map label (timers (run agent0 [Fire 0 world0] Fsm_init)) = [''agent_lookup'']"
  by (simp add: step_eval world_eval)

text \<open>
  Claim C2, amended: a lookup attempt whose probe of the resolved host returns another
  header or none, on a host without /proc, returns False, schedules exactly one retry
  named \<open>agent_lookup\<close> and leaves the state as it was. When the attempt is the callback
  of the event \<open>lookup\<close>, the state it leaves is Found, not Unresolved.
\<close>

theorem lookup_miss_retry:
  assumes "get_agent_host_port c w = Inr (host, port)"
    and "request_header w host \<noteq> Some (AGENT_HEADER c)"
    and "\<not> proc_exists w"
  shows "fst (lookup_agent_host c w s) = Inr False
    \<and> timers (snd (lookup_agent_host c w s)) =
        timers s @ [\<lparr>interval = RETRY_PERIOD, daemon = True, label = ''agent_lookup'',
                     callee = Call_lookup_agent_host\<rparr>]
    \<and> current (snd (lookup_agent_host c w s)) = current s
    \<and> current (snd (lookup c w s)) = St_found
    \<and> timers (snd (lookup c w s)) =
        timers s @ [\<lparr>interval = RETRY_PERIOD, daemon = True, label = ''agent_lookup'',
                     callee = Call_lookup_agent_host\<rparr>]"
proof -
  have a: "\<And>s. lookup_agent_host c w s = agent_not_found (snd (check_host w host port s))"
    using assms by (simp add: lookup_agent_host_def check_host_def)
  show ?thesis by (simp add: a snd_lookup printstatechange_def)
qed

theorem lookup_miss_retry_witness:
  "get_agent_host_port agent0 world0 = Inr (''localhost'', 42699)
   \<and> request_header world0 ''localhost'' \<noteq> Some (AGENT_HEADER agent0)
   \<and> \<not> proc_exists world0
   \<and> current (snd (lookup_agent_host agent0 world0 Fsm_init)) = St_none
   \<and> current (snd (lookup agent0 world0 Fsm_init)) = St_found
   \<and> map label (timers (snd (lookup agent0 world0 Fsm_init))) = [''Startup'', ''agent_lookup'']"
  using lookup_miss_retry [of agent0 world0 "''localhost''" 42699 Fsm_init]
  by (simp add: world_eval get_agent_host_port_def)

subsection \<open>C3: endpoint resolution can fail\<close>

text \<open>
  Claim C3 says that \<open>__get_agent_host_port\<close> never fails, for every string in the port
  variable. It does fail: with INSTANA_AGENT_HOST set and INSTANA_AGENT_PORT holding
  \<open>4269x\<close>, \<open>int\<close> raises ValueError and nothing catches it.
\<close>

theorem resolve_bad_port_counterexample:
  "environ world_bad_port ''INSTANA_AGENT_HOST'' = Some ''10.0.0.5''
   \<and> environ world_bad_port ''INSTANA_AGENT_PORT'' = Some ''4269x''
   \<and> get_agent_host_port agent0 world_bad_port = Inl ValueError"
  by (simp add: get_agent_host_port_def world_bad_port_def world0_def)

text \<open>
  Claim C3, amended: \<open>__get_agent_host_port\<close> returns a host and a port or raises
  ValueError, and it raises exactly when a host variable of the environment (the
  primary one or the deprecated alias) is set and the port variable is set to a string
  on which \<open>int\<close> raises. When neither the environment nor the options name a host, it
  returns the built-in defaults, whatever the port variable holds.
\<close>

theorem resolve_fails_only_on_bad_port:
  "((\<exists>hp. get_agent_host_port c w = Inr hp) \<or> get_agent_host_port c w = Inl ValueError)
   \<and> (get_agent_host_port c w = Inl ValueError \<longleftrightarrow>
        (environ w ''INSTANA_AGENT_HOST'' \<noteq> None \<or> environ w ''INSTANA_AGENT_IP'' \<noteq> None)
        \<and> environ w ''INSTANA_AGENT_PORT'' \<noteq> None \<and> int_port w = None)
   \<and> (environ w ''INSTANA_AGENT_HOST'' = None \<and> environ w ''INSTANA_AGENT_IP'' = None
        \<and> opt_agent_host w = []
        \<longrightarrow> get_agent_host_port c w = Inr (AGENT_DEFAULT_HOST c, AGENT_DEFAULT_PORT c))"
  by (auto simp: get_agent_host_port_def split: option.splits)

theorem resolve_fails_only_on_bad_port_witness:
  "environ (world0\<lparr>environ := [''INSTANA_AGENT_PORT'' \<mapsto> ''4269x'']\<rparr>) ''INSTANA_AGENT_HOST'' = None
   \<and> environ (world0\<lparr>environ := [''INSTANA_AGENT_PORT'' \<mapsto> ''4269x'']\<rparr>) ''INSTANA_AGENT_IP'' = None
   \<and> opt_agent_host (world0\<lparr>environ := [''INSTANA_AGENT_PORT'' \<mapsto> ''4269x'']\<rparr>) = []
   \<and> int_port (world0\<lparr>environ := [''INSTANA_AGENT_PORT'' \<mapsto> ''4269x'']\<rparr>) = None
   \<and> get_agent_host_port agent0 (world0\<lparr>environ := [''INSTANA_AGENT_PORT'' \<mapsto> ''4269x'']\<rparr>)
       = Inr (''localhost'', 42699)"
  using resolve_fails_only_on_bad_port
    [of agent0 "world0\<lparr>environ := [''INSTANA_AGENT_PORT'' \<mapsto> ''4269x'']\<rparr>"]
  by (simp add: world0_def agent0_def)

subsection \<open>C4: starting the telemetry\<close>

text \<open>
  Claim C4 says that \<open>meter.run\<close> is called exactly once in every execution, also in
  those with \<open>reset()\<close>. In the execution below the handshake completes, \<open>reset()\<close> is
  called, and the handshake completes again: \<open>meter.run\<close> has been called twice.
\<close>

theorem telemetry_twice_counterexample:
  "meter_runs (run agent0 [Fire 0 world_agent, Reset world_agent] Fsm_init) = 2"
  by (simp add: step_eval world_eval Discovery_def)

text \<open>
  Claim C4, amended: one step (a timer firing, or a call of \<open>reset()\<close>) calls
  \<open>meter.run\<close> at most once, and when it does the machine is in Ready at the end of the
  step. In an execution without \<open>reset()\<close>, \<open>meter.run\<close> has been called once when the
  machine is in Ready and not at all otherwise. Every \<open>reset()\<close> after which the
  handshake completes calls it again: a call of \<open>reset()\<close> that ends in Ready has
  called it once more, also when the machine was in Ready before, and so has every
  later step that takes the machine into Ready.
\<close>

theorem telemetry_start_once_without_reset:
  "(meter_runs (step c a s) = meter_runs s
     \<or> (meter_runs (step c a s) = Suc (meter_runs s) \<and> current (step c a s) = St_good2go))
   \<and> (list_all (\<lambda>a. \<not> is_reset a) acts \<longrightarrow>
        meter_runs (run c acts Fsm_init) =
          (if current (run c acts Fsm_init) = St_good2go then 1 else 0))
   \<and> (current (step c (Reset w) s) = St_good2go \<longrightarrow>
        meter_runs (step c (Reset w) s) = Suc (meter_runs s))
   \<and> (current s \<noteq> St_good2go \<and> current (step c a s) = St_good2go \<longrightarrow>
        meter_runs (step c a s) = Suc (meter_runs s))"
proof -
  have r: "current (step c (Reset w) s) = St_good2go \<longrightarrow>
        meter_runs (step c (Reset w) s) = Suc (meter_runs s)"
    using lookup_meter [of c w s] by (simp add: reset_def)
  have e: "current s \<noteq> St_good2go \<and> current (step c a s) = St_good2go \<longrightarrow>
        meter_runs (step c a s) = Suc (meter_runs s)"
    by (rule step_enters_ready)
  show ?thesis
    using step_meter [of c a s] run_steady [OF steady_init, of acts c] r e
    by (auto simp: steady_def)
qed

theorem telemetry_start_once_without_reset_witness:
  "list_all (\<lambda>a. \<not> is_reset a) [Fire 0 world0, Fire 0 world_silent, Fire 0 world_agent]
   \<and> current (run agent0 [Fire 0 world0, Fire 0 world_silent, Fire 0 world_agent] Fsm_init) = St_good2go
   \<and> meter_runs (run agent0 [Fire 0 world0, Fire 0 world_silent, Fire 0 world_agent] Fsm_init) = 1
   \<and> current Fsm_init \<noteq> St_good2go
   \<and> current (step agent0 (Fire 0 world_agent) Fsm_init) = St_good2go
   \<and> meter_runs (step agent0 (Fire 0 world_agent) Fsm_init) = 1
   \<and> current (step agent0 (Reset world_agent) (step agent0 (Fire 0 world_agent) Fsm_init))
       = St_good2go
   \<and> meter_runs (step agent0 (Reset world_agent) (step agent0 (Fire 0 world_agent) Fsm_init))
       = 2"
proof -
  have a: "current (run agent0 [Fire 0 world0, Fire 0 world_silent, Fire 0 world_agent] Fsm_init)
      = St_good2go"
    by (simp add: step_eval world_eval Discovery_def)
  have b: "current Fsm_init \<noteq> St_good2go" "meter_runs Fsm_init = 0"
    by (simp_all add: Fsm_init_def)
  have c: "current (step agent0 (Fire 0 world_agent) Fsm_init) = St_good2go"
    by (simp add: step_eval world_eval Discovery_def)
  have d: "step agent0 (Reset world_agent) (step agent0 (Fire 0 world_agent) Fsm_init)
      = run agent0 [Fire 0 world_agent, Reset world_agent] Fsm_init"
    by (simp add: run_def)
  have e: "current (run agent0 [Fire 0 world_agent, Reset world_agent] Fsm_init) = St_good2go"
    by (simp add: step_eval world_eval Discovery_def)
  show ?thesis
    using telemetry_start_once_without_reset
      [of agent0 "Fire 0 world_agent" Fsm_init
        "[Fire 0 world0, Fire 0 world_silent, Fire 0 world_agent]" world_agent]
      telemetry_start_once_without_reset
      [of agent0 "Fire 0 world_agent" "step agent0 (Fire 0 world_agent) Fsm_init" "[]" world_agent]
      a b c d e
    by simp
qed

subsection \<open>C5: the process ids of the discovery record\<close>

text \<open>
  Claim C5 says that the discovery record carries the pid the process sees itself and
  the pid the kernel sees, in two fields. On a host with /proc where \<open>os.getpid()\<close> is
  7 and the scheduler file names 1234, the record that \<open>announce_sensor\<close> hands to the
  agent has the fields \<open>pid\<close>, \<open>name\<close>, \<open>args\<close>, \<open>fd\<close> and \<open>inode\<close> and no other;
  \<open>pid\<close> is 1234, and 7 is in none of them.
\<close>

theorem discovery_single_pid_counterexample:
  "getpid world_linux = 7
   \<and> discovery_of world_linux = Inr discovery_linux
   \<and> requests (snd (announce_sensor world_linux state_found)) = [discovery_linux]
   \<and> dom discovery_linux = {''pid'', ''name'', ''args'', ''fd'', ''inode''}
   \<and> map discovery_linux [''pid'', ''name'', ''args'', ''fd'', ''inode''] =
       [Some (PInt 1234), Some (PStr ''python''), Some (PList [''app.py'']),
        Some (PInt 5), Some (PStr ''socket:[12345]'')]"
proof -
  have a: "discovery_of world_linux = Inr discovery_linux"
    by (simp add: world_eval discovery_of_def get_cmdline_def get_real_pid_def
          discovery_linux_def)
  have b: "requests (snd (announce_sensor world_linux state_found)) = [discovery_linux]"
    using requests_announce_sensor [OF a, of state_found]
    by (simp add: state_found_def Fsm_init_def)
  have c: "dom discovery_linux = {''pid'', ''name'', ''args'', ''fd'', ''inode''}"
    by (auto simp: discovery_linux_def Discovery_def setattr_def)
  have d: "map discovery_linux [''pid'', ''name'', ''args'', ''fd'', ''inode''] =
       [Some (PInt 1234), Some (PStr ''python''), Some (PList [''app.py'']),
        Some (PInt 5), Some (PStr ''socket:[12345]'')]"
    by (simp add: discovery_linux_def Discovery_def setattr_def)
  show ?thesis using a b c d by (simp add: world_eval)
qed

text \<open>
  Claim C5, amended: every announce attempt that gets as far as the request hands one
  discovery record to the agent. The record has a single pid field, \<open>pid\<close>, which holds
  the result of \<open>__get_real_pid\<close>: the pid read from the scheduler file, and the pid the
  process sees itself when /proc or the file is missing or the file cannot be read or
  parsed. With it come \<open>name\<close> and \<open>args\<close>, the head and the tail of the command line.
  Apart from the socket fields the record has no further field, so the pid the process
  sees itself has no field of its own.
\<close>

theorem discovery_record_fields:
  assumes "discovery_of w = Inr d"
  shows "requests (snd (announce_sensor w s)) = requests s @ [d]
    \<and> d ''pid'' = Some (PInt (fst (get_real_pid w)))
    \<and> (\<exists>nm args. fst (get_cmdline w) = nm # args
          \<and> d ''name'' = Some (PStr nm) \<and> d ''args'' = Some (PList args))
    \<and> dom d - {''fd'', ''inode''} = {''pid'', ''name'', ''args''}
    \<and> (proc_exists w \<and> sched_pid w = Content n \<longrightarrow> fst (get_real_pid w) = n)
    \<and> (\<not> proc_exists w \<or> sched_pid w = Absent \<or> sched_pid w = Unreadable \<longrightarrow>
         fst (get_real_pid w) = getpid w)"
proof -
  obtain nm args where f: "fst (get_cmdline w) = nm # args"
      "d ''pid'' = Some (PInt (fst (get_real_pid w)))"
      "d ''name'' = Some (PStr nm)" "d ''args'' = Some (PList args)"
      "dom d \<subseteq> {''pid'', ''name'', ''args'', ''fd'', ''inode''}"
    using discovery_of_fields [OF assms] by blast
  have "dom d - {''fd'', ''inode''} = {''pid'', ''name'', ''args''}"
    using f by auto
  then show ?thesis
    using requests_announce_sensor [OF assms] f
    by (auto simp: get_real_pid_def)
qed

theorem discovery_record_fields_witness:
  "discovery_of world_linux = Inr discovery_linux
   \<and> proc_exists world_linux \<and> sched_pid world_linux = Content 1234
   \<and> fst (get_real_pid world_linux) = 1234
   \<and> discovery_linux ''pid'' = Some (PInt 1234)
   \<and> \<not> proc_exists world0
   \<and> fst (get_real_pid world0) = getpid world0
   \<and> requests (snd (announce_sensor world_linux state_found)) = [discovery_linux]"
  using discovery_record_fields [of world_linux discovery_linux state_found 1234]
     discovery_record_fields [of world0
      "Discovery [(''pid'', PInt 7), (''name'', PStr ''app.py''), (''args'', PList [''--serve''])]"
      state_found 0]
  by (simp add: world_eval discovery_of_def get_cmdline_def get_real_pid_def discovery_linux_def)

subsection \<open>C6: the order of the sources of the endpoint\<close>

text \<open>
  Claim C6 says that for every combination of the sources the resolution yields the
  endpoint of the first source that names a host, an environment host being paired with
  the port variable when that is set. Below, only the deprecated host variable and the
  port variable are set, and the port variable holds \<open>4269x\<close>: the resolution yields no
  endpoint, it raises ValueError.
\<close>

theorem resolve_alias_bad_port_counterexample:
  "environ world_alias_bad_port ''INSTANA_AGENT_HOST'' = None
   \<and> environ world_alias_bad_port ''INSTANA_AGENT_IP'' = Some ''10.9.9.9''
   \<and> environ world_alias_bad_port ''INSTANA_AGENT_PORT'' = Some ''4269x''
   \<and> get_agent_host_port agent0 world_alias_bad_port = Inl ValueError"
  by (simp add: get_agent_host_port_def world_alias_bad_port_def world0_def)

text \<open>
  Claim C6, amended: the four sources of the endpoint are tried in order and the first
  that names a host wins. The primary host variable is paired with the default port
  when the port variable is not set and with the \<open>int\<close> of the port variable when it is;
  when \<open>int\<close> raises on it, the resolution raises ValueError and yields no endpoint. The
  deprecated alias, when the primary variable is not set, is paired in the same way.
  Then comes a non-empty host of the options, with the port of the options unless that
  is zero; then the defaults. A later source is never consulted once an earlier one
  names a host: two worlds that agree on the winning host variable and on the port
  variable (the string and what \<open>int\<close> makes of it) resolve alike, whatever the alias
  and the options hold.
\<close>

theorem resolve_precedence:
  "(environ w ''INSTANA_AGENT_HOST'' = Some h \<longrightarrow>
      get_agent_host_port c w =
        (case environ w ''INSTANA_AGENT_PORT'' of
           None \<Rightarrow> Inr (h, AGENT_DEFAULT_PORT c)
         | Some p \<Rightarrow> (case int_port w of None \<Rightarrow> Inl ValueError | Some n \<Rightarrow> Inr (h, n))))
   \<and> (environ w ''INSTANA_AGENT_HOST'' = None \<and> environ w ''INSTANA_AGENT_IP'' = Some h \<longrightarrow>
      get_agent_host_port c w =
        (case environ w ''INSTANA_AGENT_PORT'' of
           None \<Rightarrow> Inr (h, AGENT_DEFAULT_PORT c)
         | Some p \<Rightarrow> (case int_port w of None \<Rightarrow> Inl ValueError | Some n \<Rightarrow> Inr (h, n))))
   \<and> (environ w ''INSTANA_AGENT_HOST'' = None \<and> environ w ''INSTANA_AGENT_IP'' = None
        \<and> opt_agent_host w \<noteq> [] \<longrightarrow>
      get_agent_host_port c w =
        Inr (opt_agent_host w,
             if opt_agent_port w \<noteq> 0 then opt_agent_port w else AGENT_DEFAULT_PORT c))
   \<and> (environ w ''INSTANA_AGENT_HOST'' = None \<and> environ w ''INSTANA_AGENT_IP'' = None
        \<and> opt_agent_host w = [] \<longrightarrow>
      get_agent_host_port c w = Inr (AGENT_DEFAULT_HOST c, AGENT_DEFAULT_PORT c))
   \<and> (environ w ''INSTANA_AGENT_HOST'' \<noteq> None
        \<and> environ w' ''INSTANA_AGENT_HOST'' = environ w ''INSTANA_AGENT_HOST''
        \<and> environ w' ''INSTANA_AGENT_PORT'' = environ w ''INSTANA_AGENT_PORT''
        \<and> int_port w' = int_port w \<longrightarrow>
      get_agent_host_port c w' = get_agent_host_port c w)
   \<and> (environ w ''INSTANA_AGENT_HOST'' = None \<and> environ w ''INSTANA_AGENT_IP'' \<noteq> None
        \<and> environ w' ''INSTANA_AGENT_HOST'' = None
        \<and> environ w' ''INSTANA_AGENT_IP'' = environ w ''INSTANA_AGENT_IP''
        \<and> environ w' ''INSTANA_AGENT_PORT'' = environ w ''INSTANA_AGENT_PORT''
        \<and> int_port w' = int_port w \<longrightarrow>
      get_agent_host_port c w' = get_agent_host_port c w)"
  by (auto simp: get_agent_host_port_def split: option.splits)

theorem resolve_precedence_witness:
  "get_agent_host_port agent0
     (world0\<lparr>environ := [''INSTANA_AGENT_HOST'' \<mapsto> ''10.0.0.5'', ''INSTANA_AGENT_PORT'' \<mapsto> ''4000'',
                         ''INSTANA_AGENT_IP'' \<mapsto> ''10.9.9.9''],
             int_port := Some 4000,
             opt_agent_host := ''cfg'', opt_agent_port := 5000\<rparr>) = Inr (''10.0.0.5'', 4000)
   \<and> get_agent_host_port agent0
     (world0\<lparr>environ := [''INSTANA_AGENT_IP'' \<mapsto> ''10.9.9.9''],
             opt_agent_host := ''cfg'', opt_agent_port := 5000\<rparr>) = Inr (''10.9.9.9'', 42699)
   \<and> get_agent_host_port agent0
     (world0\<lparr>opt_agent_host := ''cfg'', opt_agent_port := 5000\<rparr>) = Inr (''cfg'', 5000)
   \<and> get_agent_host_port agent0 world0 = Inr (''localhost'', 42699)
   \<and> get_agent_host_port agent0
     (world0\<lparr>environ := [''INSTANA_AGENT_HOST'' \<mapsto> ''10.0.0.5'', ''INSTANA_AGENT_PORT'' \<mapsto> ''4000''],
             int_port := Some 4000\<rparr>)
      = get_agent_host_port agent0
     (world0\<lparr>environ := [''INSTANA_AGENT_HOST'' \<mapsto> ''10.0.0.5'', ''INSTANA_AGENT_PORT'' \<mapsto> ''4000'',
                         ''INSTANA_AGENT_IP'' \<mapsto> ''10.9.9.9''],
             int_port := Some 4000,
             opt_agent_host := ''cfg'', opt_agent_port := 5000\<rparr>)
   \<and> get_agent_host_port agent0 (world0\<lparr>environ := [''INSTANA_AGENT_IP'' \<mapsto> ''10.9.9.9'']\<rparr>)
      = get_agent_host_port agent0
     (world0\<lparr>environ := [''INSTANA_AGENT_IP'' \<mapsto> ''10.9.9.9''],
             opt_agent_host := ''cfg'', opt_agent_port := 5000\<rparr>)"
  using
    resolve_precedence [where c = agent0 and h = "''10.0.0.5''"
      and w = "world0\<lparr>environ := [''INSTANA_AGENT_HOST'' \<mapsto> ''10.0.0.5'',
                 ''INSTANA_AGENT_PORT'' \<mapsto> ''4000'', ''INSTANA_AGENT_IP'' \<mapsto> ''10.9.9.9''],
               int_port := Some 4000,
               opt_agent_host := ''cfg'', opt_agent_port := 5000\<rparr>"
      and w' = "world0\<lparr>environ := [''INSTANA_AGENT_HOST'' \<mapsto> ''10.0.0.5'',
                 ''INSTANA_AGENT_PORT'' \<mapsto> ''4000''], int_port := Some 4000\<rparr>"]
    resolve_precedence [where c = agent0 and h = "''10.9.9.9''"
      and w = "world0\<lparr>environ := [''INSTANA_AGENT_IP'' \<mapsto> ''10.9.9.9''],
               opt_agent_host := ''cfg'', opt_agent_port := 5000\<rparr>"
      and w' = "world0\<lparr>environ := [''INSTANA_AGENT_IP'' \<mapsto> ''10.9.9.9'']\<rparr>"]
    resolve_precedence [where c = agent0 and h = "[]"
      and w = "world0\<lparr>opt_agent_host := ''cfg'', opt_agent_port := 5000\<rparr>" and w' = world0]
    resolve_precedence [where c = agent0 and h = "[]" and w = world0 and w' = world0]
  by (simp add: world0_def agent0_def)

subsection \<open>C7: a lookup that finds the agent\<close>

text \<open>
  Claim C7 says that a lookup attempt whose probe returns the marker records the
  endpoint and takes the machine to Found. Below, the host is set in the environment,
  no port is, and the agent answers probe and announcement. The attempt starts in
  Found, where the event \<open>lookup\<close> has put the machine, and ends in Ready: it fires the
  event \<open>announce\<close>, which leaves Found. The endpoint is recorded as the claim says.
\<close>

theorem lookup_hit_counterexample:
  "current state_found = St_found
   \<and> current (snd (lookup_agent_host agent0 world_agent state_found)) = St_good2go
   \<and> current (run agent0 [Fire 0 world_agent] Fsm_init) = St_good2go
   \<and> agent_host (run agent0 [Fire 0 world_agent] Fsm_init) = Some ''10.0.0.5''
   \<and> agent_port (run agent0 [Fire 0 world_agent] Fsm_init) = Some 42699"
  by (simp add: step_eval world_eval Discovery_def)

text \<open>
  Claim C7, amended: a lookup attempt whose probe of the resolved host returns the
  marker header writes exactly the resolved host and port to the agent object and fires
  the event \<open>announce\<close>. The machine, which the event \<open>lookup\<close> has taken to Found before
  the attempt, is in Announced or in Ready when the attempt ends.
\<close>

theorem lookup_hit_records_endpoint:
  assumes "get_agent_host_port c w = Inr (host, port)"
    and "request_header w host = Some (AGENT_HEADER c)"
  shows "agent_host (snd (lookup_agent_host c w s)) = Some host
    \<and> agent_port (snd (lookup_agent_host c w s)) = Some port
    \<and> agent_host (snd (lookup c w s)) = Some host
    \<and> agent_port (snd (lookup c w s)) = Some port
    \<and> (current (snd (lookup c w s)) = St_announced \<or> current (snd (lookup c w s)) = St_good2go)
    \<and> (current s = St_found \<longrightarrow>
         current (snd (lookup_agent_host c w s)) = St_announced
         \<or> current (snd (lookup_agent_host c w s)) = St_good2go)"
proof -
  have a: "\<And>s. lookup_agent_host c w s = agent_found w host port (snd (check_host w host port s))"
    using assms by (simp add: lookup_agent_host_def check_host_def)
  have b: "\<And>s. current s = St_found \<Longrightarrow>
      current (snd (lookup_agent_host c w s)) = St_announced
         \<or> current (snd (lookup_agent_host c w s)) = St_good2go"
    unfolding a snd_agent_found by (rule announce_from_found) simp
  have c: "current (snd (lookup c w s)) = St_announced \<or> current (snd (lookup c w s)) = St_good2go"
    unfolding snd_lookup by (rule b) (simp add: printstatechange_def)
  show ?thesis using b c by (simp add: a snd_agent_found snd_lookup)
qed

theorem lookup_hit_records_endpoint_witness:
  "get_agent_host_port agent0 world_silent = Inr (''10.0.0.5'', 42699)
   \<and> request_header world_silent ''10.0.0.5'' = Some (AGENT_HEADER agent0)
   \<and> agent_host (snd (lookup agent0 world_silent Fsm_init)) = Some ''10.0.0.5''
   \<and> agent_port (snd (lookup agent0 world_silent Fsm_init)) = Some 42699
   \<and> current (snd (lookup agent0 world_silent Fsm_init)) = St_announced"
  using lookup_hit_records_endpoint [of agent0 world_silent "''10.0.0.5''" 42699 Fsm_init]
  by (simp add: step_eval world_eval Discovery_def)

subsection \<open>C8: the state never moves backward without \<open>reset\<close>\<close>

text \<open>
  Claim C8: in an execution without \<open>reset()\<close>, whatever the probes and announcements
  return and whichever timers fire, the state only moves forward along Unresolved,
  Found, Announced, Ready: the state after a longer execution is never before the state
  after a shorter one that it extends.
\<close>

theorem state_monotonic_without_reset:
  assumes "list_all (\<lambda>a. \<not> is_reset a) (acts @ rest)"
  shows "rank (current (run c acts Fsm_init)) \<le> rank (current (run c (acts @ rest) Fsm_init))"
proof -
  have "steady (run c acts Fsm_init)" using run_steady [OF steady_init] assms by simp
  then have "advances (run c acts Fsm_init) (run c rest (run c acts Fsm_init))"
    using run_steady assms by simp
  then show ?thesis by (simp add: run_append advances_def)
qed

theorem state_monotonic_without_reset_witness:
  "list_all (\<lambda>a. \<not> is_reset a) ([Fire 0 world0, Fire 0 world_silent] @ [Fire 0 world_agent])
   \<and> current (run agent0 [Fire 0 world0, Fire 0 world_silent] Fsm_init) = St_announced
   \<and> current (run agent0 ([Fire 0 world0, Fire 0 world_silent] @ [Fire 0 world_agent]) Fsm_init)
       = St_good2go"
  using state_monotonic_without_reset
    [of "[Fire 0 world0, Fire 0 world_silent]" "[Fire 0 world_agent]" agent0]
  by (simp add: step_eval world_eval Discovery_def)

subsection \<open>C9: the warning and its latch\<close>

text \<open>
  Claim C9 says that after the first failing lookup all failing lookups log at debug
  level only. Below, the latch is set, /proc exists and the routing-table query raises:
  the failing lookup logs the exception at error level, between its debug records.
\<close>

theorem error_record_counterexample:
  "warnedPeriodic (run agent0 [Fire 0 world0] Fsm_init)
   \<and> fst (lookup_agent_host agent0 world_no_route (run agent0 [Fire 0 world0] Fsm_init)) = Inr False
   \<and> drop (length (logged (run agent0 [Fire 0 world0] Fsm_init)))
        (logged (snd (lookup_agent_host agent0 world_no_route (run agent0 [Fire 0 world0] Fsm_init))))
      = [(Debug, Msg_checking ''localhost'' 42699), (Debug, Msg_checking_gateway),
         (Error, Msg_exception), (Debug, Msg_scheduling ''agent_lookup'')]"
  by (simp add: step_eval world_eval)

text \<open>
  Claim C9, amended: in every execution, with or without \<open>reset()\<close>, the warning that
  the agent could not be found is logged at most once; once the latch is set it stays
  set and no further warning is logged, whatever follows. The first failing lookup sets
  the latch and logs the warning. A failing lookup that finds the latch set logs at
  debug level, but for the error record of a routing-table query that raised.
\<close>

theorem warning_at_most_once:
  "warnings (run c acts Fsm_init) \<le> 1
   \<and> (warnedPeriodic (run c acts Fsm_init) \<longrightarrow>
        warnedPeriodic (run c (acts @ rest) Fsm_init)
        \<and> warnings (run c (acts @ rest) Fsm_init) = warnings (run c acts Fsm_init))
   \<and> (\<not> warnedPeriodic s \<and> fst (lookup_agent_host c w s) = Inr False \<longrightarrow>
        warnedPeriodic (snd (lookup_agent_host c w s))
        \<and> warnings (snd (lookup_agent_host c w s)) = Suc (warnings s))
   \<and> (warnedPeriodic s \<and> fst (lookup_agent_host c w s) = Inr False \<longrightarrow>
        (\<exists>xs. logged (snd (lookup_agent_host c w s)) = logged s @ xs \<and> list_all quiet xs))"
proof -
  have "latched Fsm_init (run c acts Fsm_init)" by (rule run_latched)
  then have a: "warnings (run c acts Fsm_init) \<le> 1"
    by (simp add: latched_def Fsm_init_def warnings_def split: if_splits)
  have "latched (run c acts Fsm_init) (run c rest (run c acts Fsm_init))" by (rule run_latched)
  then have b: "warnedPeriodic (run c acts Fsm_init) \<longrightarrow>
        warnedPeriodic (run c (acts @ rest) Fsm_init)
        \<and> warnings (run c (acts @ rest) Fsm_init) = warnings (run c acts Fsm_init)"
    by (auto simp: run_append latched_def)
  have c: "\<not> warnedPeriodic s \<and> fst (lookup_agent_host c w s) = Inr False \<longrightarrow>
        warnedPeriodic (snd (lookup_agent_host c w s))
        \<and> warnings (snd (lookup_agent_host c w s)) = Suc (warnings s)"
  proof (cases c w s rule: lookup_agent_host_cases)
    case (raised e)
    then show ?thesis by simp
  next
    case (found host port s1)
    then show ?thesis using fst_agent_found [of w host port s1] by simp
  next
    case (not_found s1 xs)
    then show ?thesis by simp
  qed
  have d: "warnedPeriodic s \<and> fst (lookup_agent_host c w s) = Inr False \<longrightarrow>
        (\<exists>xs. logged (snd (lookup_agent_host c w s)) = logged s @ xs \<and> list_all quiet xs)"
  proof
    assume h: "warnedPeriodic s \<and> fst (lookup_agent_host c w s) = Inr False"
    then obtain xs where
      "logged (snd (lookup_agent_host c w s)) = logged s @ xs @ [(Debug, Msg_scheduling ''agent_lookup'')]"
      "list_all quiet xs"
      using failing_lookup_log [of c w s] by auto
    then have "logged (snd (lookup_agent_host c w s)) =
         logged s @ (xs @ [(Debug, Msg_scheduling ''agent_lookup'')])
       \<and> list_all quiet (xs @ [(Debug, Msg_scheduling ''agent_lookup'')])"
      by (simp add: quiet_def)
    then show "\<exists>xs. logged (snd (lookup_agent_host c w s)) = logged s @ xs \<and> list_all quiet xs"
      by blast
  qed
  show ?thesis using a b c d by blast
qed

theorem warning_at_most_once_witness:
  "warnedPeriodic (run agent0 [Fire 0 world0] Fsm_init)
   \<and> warnings (run agent0 [Fire 0 world0] Fsm_init) = 1
   \<and> warnings (run agent0 ([Fire 0 world0] @ [Reset world0, Fire 0 world0, Reset world_no_route]) Fsm_init) = 1
   \<and> \<not> warnedPeriodic Fsm_init
   \<and> fst (lookup_agent_host agent0 world0 Fsm_init) = Inr False
   \<and> warnings (snd (lookup_agent_host agent0 world0 Fsm_init)) = 1
   \<and> fst (lookup_agent_host agent0 world0 (run agent0 [Fire 0 world0] Fsm_init)) = Inr False"
  using warning_at_most_once [of agent0 "[Fire 0 world0]"
      "[Reset world0, Fire 0 world0, Reset world_no_route]" Fsm_init world0]
    warning_at_most_once [of agent0 "[Fire 0 world0]" "[]" "run agent0 [Fire 0 world0] Fsm_init" world0]
  by (simp add: step_eval world_eval warnings_def)

end
